theory Spec2Isabelle
  imports Main
begin

text \<open>
  A shallow embedding of \<^verbatim>\<open>rescape_graphene/schema_helpers.py\<close>: the merge of a field
  dict with the fields of a Django model, the generation of input types for a CRUD
  operation with its memoization, the guess between create and update, the partition of
  a values bag into defaults and lookup keys, and the text of a read query.

  Python dicts are association lists, exceptions are values of a sum type, and the one
  piece of state, the cache of generated classes, is passed through the functions that
  read or change it. The modules \<^verbatim>\<open>ramda\<close>, \<^verbatim>\<open>memoize\<close> and \<^verbatim>\<open>graphene_helpers\<close> of
  the repository are not among the sources; each helper taken from them is introduced by
  a comment that says so.
\<close>

section \<open>Vocabulary of schema_helpers.py\<close>

text \<open>
  The permission tags and the CRUD operations are module-level string constants of
  \<^verbatim>\<open>schema_helpers.py\<close> (\<^verbatim>\<open>DENY = 'deny'\<close>, \<^verbatim>\<open>CREATE = 'create'\<close>, ...).
  A permission stored under a CRUD key of a field's dict is either one tag or a list of
  tags (the source's comment gives \<^verbatim>\<open>update=[REQUIRE, UNIQUE]\<close>).
\<close>

datatype permission = DENY | REQUIRE | UNIQUE | PRIMARY | ALLOW

datatype crud = CREATE | READ | UPDATE | DELETE

datatype perm_value = PermStr permission | PermList "permission list"

text \<open>
  Exceptions are values. \<open>KeyError\<close>, \<open>TypeError\<close>, \<open>AttributeError\<close> and \<open>IndexError\<close> are
  Python's own;
  \<open>UnknownFieldError\<close> is the name the specification gives to the failure of a lookup
  of a field that the resolved specs do not have.
\<close>

datatype py_error = KeyError | TypeError | AttributeError | IndexError | UnknownFieldError

text \<open>
  A Python dict keeps its keys in insertion order, so it is an association list; the keys
  of a well-formed dict are distinct. \<open>map_of dct key\<close> is the entry \<^verbatim>\<open>dct.get(key)\<close>.
\<close>

type_synonym ('k, 'v) dict = "('k \<times> 'v) list"

section \<open>Helpers of the ramda module\<close>

text \<open>
  Modelled from the spec: \<^verbatim>\<open>R.has\<close> of the repository's \<^verbatim>\<open>ramda\<close> module, which is
  not among the sources. The specification's intent resolver tests whether the values bag
  "contains an identifier key"; the helper is the membership test \<^verbatim>\<open>key in dct\<close>.
\<close>

definition R_has :: "'k \<Rightarrow> ('k, 'v) dict \<Rightarrow> bool" where
  "R_has key dct = (map_of dct key \<noteq> None)"

text \<open>
  Modelled from the spec: \<^verbatim>\<open>R.keys\<close> of the absent \<^verbatim>\<open>ramda\<close> module, the keys of a
  dict in order ("the full resolved-spec field list").
\<close>

definition R_keys :: "('k, 'v) dict \<Rightarrow> 'k list" where
  "R_keys dct = map fst dct"

text \<open>
  Modelled from the spec: \<^verbatim>\<open>R.filter_dict\<close> of the absent \<^verbatim>\<open>ramda\<close> module, which keeps
  the items whose (key, value) pair satisfies the predicate; the source's lambdas read
  \<^verbatim>\<open>key_value[0]\<close> and \<^verbatim>\<open>key_value[1]\<close> ("a field is included ... iff its
  perOperationPermission[operation] is not DENY").
\<close>

definition R_filter_dict :: "('k \<times> 'v \<Rightarrow> bool) \<Rightarrow> ('k, 'v) dict \<Rightarrow> ('k, 'v) dict" where
  "R_filter_dict f dct = filter f dct"

text \<open>
  Modelled from the spec: \<^verbatim>\<open>R.pick\<close> of the absent \<^verbatim>\<open>ramda\<close> module, which keeps the
  items whose key is in the given list and ignores listed keys that the dict does not
  have (the reflector returns metadata "restricted to exactly the fields present in the
  policy").
\<close>

definition R_pick :: "'k list \<Rightarrow> ('k, 'v) dict \<Rightarrow> ('k, 'v) dict" where
  "R_pick keys dct = filter (\<lambda>key_value. fst key_value \<in> set keys) dct"

text \<open>
  Modelled from the spec: \<^verbatim>\<open>R.prop\<close> of the absent \<^verbatim>\<open>ramda\<close> module, applied to the
  entry \<^verbatim>\<open>dct.get(key)\<close>. It reads a key that the dict must have, as Python's
  \<^verbatim>\<open>dct[key]\<close> does, which raises \<^verbatim>\<open>KeyError\<close> ("all failures are synchronous and
  immediate").
\<close>

definition R_prop :: "'v option \<Rightarrow> py_error + 'v" where
  "R_prop entry = (case entry of None \<Rightarrow> Inl KeyError | Some v \<Rightarrow> Inr v)"

text \<open>
  Modelled from the spec: \<^verbatim>\<open>R.prop_or\<close> of the absent \<^verbatim>\<open>ramda\<close> module, applied to the
  entry \<^verbatim>\<open>dct.get(key)\<close>. It returns the given default for a key that the dict does not
  have ("zero or more group identifiers").
\<close>

definition R_prop_or :: "'v \<Rightarrow> 'v option \<Rightarrow> 'v" where
  "R_prop_or default_value entry = (case entry of None \<Rightarrow> default_value | Some v \<Rightarrow> v)"

text \<open>
  Python's \<^verbatim>\<open>dct[key] = v\<close>: an existing key keeps its place, a new key goes last.
\<close>

fun dict_set :: "'k \<Rightarrow> 'v \<Rightarrow> ('k, 'v) dict \<Rightarrow> ('k, 'v) dict" where
  "dict_set key v [] = [(key, v)]"
| "dict_set key v ((k, x) # rest) =
     (if k = key then (k, v) # rest else (k, x) # dict_set key v rest)"

text \<open>
  Modelled from the spec: \<^verbatim>\<open>R.from_pairs\<close> of the absent \<^verbatim>\<open>ramda\<close> module, which builds
  a dict from (key, value) pairs, a later pair overwriting an earlier one with the same
  key (the reflector "returns a mapping from field name to ReflectedFieldMetadata").
\<close>

definition R_from_pairs :: "('k \<times> 'v) list \<Rightarrow> ('k, 'v) dict" where
  "R_from_pairs pairs = fold (\<lambda>(k, v) dct. dict_set k v dct) pairs []"

text \<open>
  Modelled from the spec: \<^verbatim>\<open>R.from_pairs_to_array_values\<close> of the absent \<^verbatim>\<open>ramda\<close>
  module, which collects under each key the list of all its values; the source's comment
  says that the result "maps each attr to all unique together tuples it's in", and the
  specification that the reflector is "collecting a synthetic group identifier ... for
  every group containing this field".
\<close>

definition R_from_pairs_to_array_values :: "('k \<times> 'v) list \<Rightarrow> ('k, 'v list) dict" where
  "R_from_pairs_to_array_values pairs =
     fold (\<lambda>(k, v) dct. dict_set k (R_prop_or [] (map_of dct k) @ [v]) dct) pairs []"

text \<open>
  Modelled from the spec: \<^verbatim>\<open>R.flatten\<close> of the absent \<^verbatim>\<open>ramda\<close> module, at its one call:
  it joins the lists of (attribute, group) pairs, one list per group, into one list of
  pairs ("scanning all multi-field uniqueness constraint groups").
\<close>

definition R_flatten :: "'a list list \<Rightarrow> 'a list" where
  "R_flatten lsts = concat lsts"

text \<open>
  Modelled from the spec: \<^verbatim>\<open>R.join\<close> of the absent \<^verbatim>\<open>ramda\<close> module, which joins
  strings with a separator ("the sorted, joined field-name list").
\<close>

fun R_join :: "string \<Rightarrow> string list \<Rightarrow> string" where
  "R_join sep [] = []"
| "R_join sep [s] = s"
| "R_join sep (s # rest) = s @ sep @ R_join sep rest"

text \<open>
  Modelled from the spec: \<^verbatim>\<open>R.compact\<close> of the absent \<^verbatim>\<open>ramda\<close> module, which drops the
  \<^verbatim>\<open>None\<close> elements of a list, so that the \<^verbatim>\<open>unique\<close> list holds the tags that apply
  ("uniquenessTags: set<PRIMARY|UNIQUE|groupId>").
\<close>

definition R_compact :: "'a option list \<Rightarrow> 'a list" where
  "R_compact lst = concat (map (\<lambda>x. case x of None \<Rightarrow> [] | Some v \<Rightarrow> [v]) lst)"

text \<open>
  Modelled from the spec: \<^verbatim>\<open>R.map\<close> of the absent \<^verbatim>\<open>ramda\<close> module, with a function
  that can raise: the elements are mapped in order and the first exception ends the call
  ("there is no partial success").
\<close>

fun R_map_raising :: "('a \<Rightarrow> py_error + 'b) \<Rightarrow> 'a list \<Rightarrow> py_error + 'b list" where
  "R_map_raising f [] = Inr []"
| "R_map_raising f (x # rest) =
     (case f x of
        Inl e \<Rightarrow> Inl e
      | Inr y \<Rightarrow>
          (case R_map_raising f rest of
             Inl e \<Rightarrow> Inl e
           | Inr ys \<Rightarrow> Inr (y # ys)))"

lemma R_map_raising_cong [fundef_cong]:
  assumes "xs = ys" and "\<And>x. x \<in> set ys \<Longrightarrow> f x = g x"
  shows "R_map_raising f xs = R_map_raising g ys"
  unfolding assms(1) using assms(2)
proof (induction ys)
  case Nil
  show ?case by simp
next
  case (Cons y ys)
  have "f y = g y" by (rule Cons.prems) simp
  moreover have "R_map_raising f ys = R_map_raising g ys"
  proof (rule Cons.IH)
    fix x assume "x \<in> set ys"
    then have "x \<in> set (y # ys)" by simp
    then show "f x = g x" by (rule Cons.prems)
  qed
  ultimately show ?case by (simp split: sum.split)
qed

section \<open>Field dicts\<close>

text \<open>
  The graphene scalar classes that \<^verbatim>\<open>django_to_graphene_type\<close> can return, and the
  Django field classes its table is keyed by. \<open>ForeignKey\<close>, \<open>OneToOneField\<close> and
  \<open>OtherField\<close> stand for the field classes the table has no entry for.
\<close>

datatype graphene_scalar =
  GrapheneInt | GrapheneString | GrapheneBoolean | GrapheneDate | GrapheneDateTime
  | GrapheneTime | DecimalScalar | GrapheneFloat | GrapheneUUID | GrapheneJSONString

datatype django_field_class =
  AutoField | IntegerField | BigAutoField | CharField | BigIntegerField | BinaryField
  | BooleanField | NullBooleanField | DateField | DateTimeField | TimeField | DecimalField
  | FloatField | EmailField | UUIDField | TextField | JSONField
  | ForeignKey | OneToOneField | OtherField string

text \<open>
  What the code reads of a Django field (\<^verbatim>\<open>field.name\<close>, \<^verbatim>\<open>field.attname\<close>,
  \<^verbatim>\<open>field.primary_key\<close>, \<^verbatim>\<open>field.unique\<close>, \<^verbatim>\<open>field.__class__\<close>), of a model
  (\<^verbatim>\<open>model._meta.fields\<close>, \<^verbatim>\<open>model._meta.unique_together\<close>) and of a graphene
  type class (its identity as an object, \<^verbatim>\<open>__name__\<close>, and \<^verbatim>\<open>_meta.model\<close> when
  \<^verbatim>\<open>hasattr(graphene_class._meta, 'model')\<close>).
\<close>

record django_field =
  field_name :: string
  field_attname :: string
  field_primary_key :: bool
  field_unique :: bool
  field_class :: django_field_class

record django_model =
  meta_fields :: "django_field list"
  meta_unique_together :: "string list list"

record graphene_class =
  class_id :: nat
  class_name :: string
  meta_model :: "django_model option"

text \<open>
  An element of the \<^verbatim>\<open>unique\<close> list that \<^verbatim>\<open>process_field\<close> builds: the tag
  \<^verbatim>\<open>PRIMARY\<close>, the tag \<^verbatim>\<open>UNIQUE\<close>, or the list of unique-together groups of the field.
\<close>

datatype unique_tag = Tag permission | Groups "string list"

text \<open>
  The value of one field in a field dict: a dict with the optional keys \<^verbatim>\<open>type\<close>,
  \<^verbatim>\<open>graphene_type\<close>, \<^verbatim>\<open>fields\<close>, \<^verbatim>\<open>unique\<close> and one optional key per CRUD operation.
  Its \<^verbatim>\<open>type\<close> is a graphene scalar class or the curried function
  \<^verbatim>\<open>related_input_field_for_crud_type(field_dict_value)\<close>, a closure that holds the
  field dict value of a relation and waits for the CRUD operation.
\<close>

datatype graphene_type_value =
  ScalarClass graphene_scalar
  | RelatedInputFieldForCrudType field_dict_value
and field_dict_value =
  FieldDictValue
    (fdv_type: "graphene_type_value option")
    (fdv_graphene_type: "graphene_class option")
    (fdv_fields: "(string \<times> field_dict_value) list option")
    (fdv_crud: "(crud \<times> perm_value) list")
    (fdv_unique: "unique_tag list option")

type_synonym field_dict = "(string, field_dict_value) dict"

section \<open>The create-or-update guess\<close>

text \<open>
  \<^verbatim>\<open>
  def guess_update_or_create(fields_dict):
      if R.has('id', fields_dict):
          return UPDATE
      return CREATE
  \<close>
\<close>

definition guess_update_or_create :: "(string, 'v) dict \<Rightarrow> crud" where
  "guess_update_or_create fields_dict =
     (if R_has ''id'' fields_dict then UPDATE else CREATE)"

section \<open>Merging a field dict with the Django model\<close>

text \<open>
  The table of \<^verbatim>\<open>django_to_graphene_type\<close>, shown with the function below; indexing it
  with a field class it does not have raises \<^verbatim>\<open>KeyError\<close>.
\<close>

fun graphene_type_table :: "django_field_class \<Rightarrow> graphene_scalar option" where
  "graphene_type_table AutoField = Some GrapheneInt"
| "graphene_type_table IntegerField = Some GrapheneInt"
| "graphene_type_table BigAutoField = Some GrapheneInt"
| "graphene_type_table CharField = Some GrapheneString"
| "graphene_type_table BigIntegerField = Some GrapheneInt"
| "graphene_type_table BinaryField = Some GrapheneInt"
| "graphene_type_table BooleanField = Some GrapheneBoolean"
| "graphene_type_table NullBooleanField = Some GrapheneBoolean"
| "graphene_type_table DateField = Some GrapheneDate"
| "graphene_type_table DateTimeField = Some GrapheneDateTime"
| "graphene_type_table TimeField = Some GrapheneTime"
| "graphene_type_table DecimalField = Some DecimalScalar"
| "graphene_type_table FloatField = Some GrapheneFloat"
| "graphene_type_table EmailField = Some GrapheneString"
| "graphene_type_table UUIDField = Some GrapheneUUID"
| "graphene_type_table TextField = Some GrapheneString"
| "graphene_type_table JSONField = Some GrapheneJSONString"
| "graphene_type_table ForeignKey = None"
| "graphene_type_table OneToOneField = None"
| "graphene_type_table (OtherField c) = None"

text \<open>
  \<^verbatim>\<open>
  def django_to_graphene_type(field, field_dict_value):
      if R.prop_or(False, 'graphene_type', field_dict_value or {}):
          return related_input_field_for_crud_type(field_dict_value)
      return {
          AutoField: graphene.Int,
          IntegerField: graphene.Int,
          BigAutoField: graphene.Int,
          CharField: graphene.String,
          BigIntegerField: graphene.Int,
          BinaryField: graphene.Int,
          BooleanField: graphene.Boolean,
          NullBooleanField: graphene.Boolean,
          DateField: graphene.Date,
          DateTimeField: graphene.DateTime,
          TimeField: graphene.Time,
          DecimalField: Decimal,
          FloatField: graphene.Float,
          EmailField: graphene.String,
          UUIDField: graphene.UUID,
          TextField: graphene.String,
          JSONField: graphene.JSONString
      }[field.__class__]
  \<close>
  \<^verbatim>\<open>Decimal\<close> is the scalar class that \<^verbatim>\<open>schema_helpers.py\<close> itself declares.
  A graphene type class is a truthy object, so the test asks whether the key
  \<^verbatim>\<open>graphene_type\<close> is there.
\<close>

definition django_to_graphene_type ::
  "django_field \<Rightarrow> field_dict_value \<Rightarrow> py_error + graphene_type_value" where
  "django_to_graphene_type field field_dict_value =
     (if R_prop_or False (map_option (\<lambda>graphene_type. True) (fdv_graphene_type field_dict_value))
      then Inr (RelatedInputFieldForCrudType field_dict_value)
      else (case graphene_type_table (field_class field) of
              None \<Rightarrow> Inl KeyError
            | Some scalar \<Rightarrow> Inr (ScalarClass scalar)))"

text \<open>
  \<^verbatim>\<open>
  def process_field(field_to_unique_field_groups, field, field_dict_value):
      unique = R.compact([
          PRIMARY if field.primary_key else None,
          UNIQUE if field.unique else None,
          R.prop_or(None, field.attname, field_to_unique_field_groups)
      ])
      return dict(
          type=django_to_graphene_type(field, field_dict_value),
          unique=unique
      )
  \<close>
\<close>

record processed_field =
  pf_type :: graphene_type_value
  pf_unique :: "unique_tag list"

definition process_field ::
  "(string, string list) dict \<Rightarrow> django_field \<Rightarrow> field_dict_value \<Rightarrow> py_error + processed_field" where
  "process_field field_to_unique_field_groups field field_dict_value =
     (let unique = R_compact [
            if field_primary_key field then Some (Tag PRIMARY) else None,
            if field_unique field then Some (Tag UNIQUE) else None,
            R_prop_or None
              (map_option (\<lambda>groups. Some (Groups groups))
                 (map_of field_to_unique_field_groups (field_attname field)))]
      in case django_to_graphene_type field field_dict_value of
           Inl e \<Rightarrow> Inl e
         | Inr type \<Rightarrow> Inr \<lparr>pf_type = type, pf_unique = unique\<rparr>)"

text \<open>
  \<^verbatim>\<open>
  def parse_django_class(model, field_dict):
      field_to_unique_field_groups = R.from_pairs_to_array_values(
          R.flatten(
              R.map(
                  lambda uniq_field_group:
                  R.map(
                      lambda attrname: [attrname, R.join(',', uniq_field_group)],
                      uniq_field_group
                  ),
                  model._meta.unique_together
              )
          )
      )
      return R.from_pairs(R.map(
          lambda field: [
              field.name,
              process_field(field_to_unique_field_groups, field, R.prop(field.name, field_dict))
          ],
          R.filter(
              lambda field: field.name in field_dict,
              model._meta.fields
          )
      ))
  \<close>
\<close>

definition parse_django_class ::
  "django_model \<Rightarrow> field_dict \<Rightarrow> py_error + (string, processed_field) dict" where
  "parse_django_class model field_dict =
     (let field_to_unique_field_groups = R_from_pairs_to_array_values
            (R_flatten
               (map (\<lambda>uniq_field_group.
                       map (\<lambda>attrname. (attrname, R_join '','' uniq_field_group)) uniq_field_group)
                  (meta_unique_together model)))
      in case R_map_raising
                (\<lambda>field.
                   case R_prop (map_of field_dict (field_name field)) of
                     Inl e \<Rightarrow> Inl e
                   | Inr field_dict_value \<Rightarrow>
                       (case process_field field_to_unique_field_groups field field_dict_value of
                          Inl e \<Rightarrow> Inl e
                        | Inr processed \<Rightarrow> Inr (field_name field, processed)))
                (filter (\<lambda>field. R_has (field_name field) field_dict) (meta_fields model)) of
           Inl e \<Rightarrow> Inl e
         | Inr pairs \<Rightarrow> Inr (R_from_pairs pairs))"

text \<open>
  Modelled from the spec: \<^verbatim>\<open>R.merge_deep\<close> of the absent \<^verbatim>\<open>ramda\<close> module, at the
  types of its one call: the left dict holds field dict values, the right dict holds what
  \<^verbatim>\<open>process_field\<close> returned. A key of both gets the left value with the right value's
  \<^verbatim>\<open>type\<close> and \<^verbatim>\<open>unique\<close> laid over it ("uniquenessTags is always taken verbatim from
  ReflectedFieldMetadata", "perOperationPermission is taken verbatim from the policy"); a
  key of the left dict alone keeps its value; a key of the right dict alone is added
  after the keys of the left dict.
\<close>

definition merge_deep_value :: "field_dict_value \<Rightarrow> processed_field \<Rightarrow> field_dict_value" where
  "merge_deep_value value processed =
     FieldDictValue (Some (pf_type processed)) (fdv_graphene_type value) (fdv_fields value)
       (fdv_crud value) (Some (pf_unique processed))"

definition R_merge_deep :: "field_dict \<Rightarrow> (string, processed_field) dict \<Rightarrow> field_dict" where
  "R_merge_deep dct1 dct2 =
     map (\<lambda>(key, value).
            case map_of dct2 key of
              None \<Rightarrow> (key, value)
            | Some processed \<Rightarrow> (key, merge_deep_value value processed)) dct1
     @ map (\<lambda>(key, processed).
              (key, FieldDictValue (Some (pf_type processed)) None None [] (Some (pf_unique processed))))
         (filter (\<lambda>key_value. \<not> R_has (fst key_value) dct1) dct2)"

text \<open>
  \<^verbatim>\<open>
  def merge_with_django_properties(graphene_type, field_dict):
      return R.merge_deep(
          field_dict,
          R.pick(
              R.keys(field_dict),
              parse_django_class(graphene_type._meta.model, field_dict))
      )
  \<close>
  Reading \<^verbatim>\<open>_meta.model\<close> of a graphene type that has none raises \<^verbatim>\<open>AttributeError\<close>.
\<close>

definition merge_with_django_properties ::
  "graphene_class \<Rightarrow> field_dict \<Rightarrow> py_error + field_dict" where
  "merge_with_django_properties graphene_type field_dict =
     (case meta_model graphene_type of
        None \<Rightarrow> Inl AttributeError
      | Some model \<Rightarrow>
          (case parse_django_class model field_dict of
             Inl e \<Rightarrow> Inl e
           | Inr parsed \<Rightarrow> Inr (R_merge_deep field_dict (R_pick (R_keys field_dict) parsed))))"

subsection \<open>Facts about the reflection\<close>

lemma R_has_iff_key: "R_has key dct \<longleftrightarrow> key \<in> set (R_keys dct)"
  by (simp add: R_has_def R_keys_def map_of_eq_None_iff)

lemma dict_set_keys: "set (R_keys (dict_set key v dct)) = insert key (set (R_keys dct))"
  by (induction key v dct rule: dict_set.induct) (auto simp: R_keys_def)

lemma fold_dict_set_keys:
  "set (R_keys (fold (\<lambda>(k, v) dct. dict_set k v dct) pairs acc)) = fst ` set pairs \<union> set (R_keys acc)"
proof (induction pairs arbitrary: acc)
  case Nil
  show ?case by simp
next
  case (Cons p pairs)
  obtain k v where p: "p = (k, v)" by (cases p)
  show ?case by (simp add: p Cons.IH dict_set_keys)
qed

lemma R_from_pairs_keys: "set (R_keys (R_from_pairs pairs)) = fst ` set pairs"
  using fold_dict_set_keys[of pairs "[]"] by (simp add: R_from_pairs_def R_keys_def)

lemma R_map_raising_Inr:
  "R_map_raising f xs = Inr ys \<Longrightarrow> list_all2 (\<lambda>x y. f x = Inr y) xs ys"
proof (induction xs arbitrary: ys)
  case Nil
  then show ?case by simp
next
  case (Cons x xs)
  from Cons.prems obtain y ys' where fx: "f x = Inr y" and rest: "R_map_raising f xs = Inr ys'"
    and ys: "ys = y # ys'"
    by (auto split: sum.splits)
  from Cons.IH[OF rest] fx ys show ?case by simp
qed

lemma parse_django_class_keys:
  assumes "parse_django_class model field_dict = Inr parsed"
  shows "set (R_keys parsed) =
         {name \<in> field_name ` set (meta_fields model). R_has name field_dict}"
proof -
  let ?fields = "filter (\<lambda>field. R_has (field_name field) field_dict) (meta_fields model)"
  from assms obtain f pairs where run: "R_map_raising f ?fields = Inr pairs"
    and parsed: "parsed = R_from_pairs pairs"
    and f: "\<And>field pair. f field = Inr pair \<Longrightarrow> fst pair = field_name field"
    unfolding parse_django_class_def Let_def
    by (fastforce split: sum.splits)
  from R_map_raising_Inr[OF run] have "list_all2 (\<lambda>field pair. fst pair = field_name field) ?fields pairs"
    by (rule list_all2_mono) (rule f)
  then have "map fst pairs = map field_name ?fields"
    by (induction rule: list_all2_induct) simp_all
  then have "fst ` set pairs = field_name ` set ?fields"
    by (metis set_map)
  then show ?thesis
    by (auto simp: parsed R_from_pairs_keys)
qed


section \<open>Names in camel case\<close>

text \<open>
  \<^verbatim>\<open>camelize\<close> of the \<^verbatim>\<open>inflection\<close> library, which the source imports:
  \<^verbatim>\<open>
  def camelize(string, uppercase_first_letter=True):
      if uppercase_first_letter:
          return re.sub(r"(?:^|_)(.)", lambda m: m.group(1).upper(), string)
      else:
          return string[0].lower() + camelize(string)[1:]
  \<close>
  The substitution upper-cases the first character and every character that follows an
  underscore, and drops that underscore; \<^verbatim>\<open>.\<close> matches no line break. \<open>camelize_upper\<close>
  is the call with \<^verbatim>\<open>uppercase_first_letter=True\<close>, \<open>camelize_lower\<close> the call with
  \<^verbatim>\<open>False\<close>, which raises \<^verbatim>\<open>IndexError\<close> on the empty string. Characters are bytes
  here, and only the ASCII letters change case.
\<close>

definition py_upper :: "char \<Rightarrow> char" where
  "py_upper c = (if 97 \<le> (of_char c :: nat) \<and> (of_char c :: nat) \<le> 122
                 then char_of ((of_char c :: nat) - 32) else c)"

definition py_lower :: "char \<Rightarrow> char" where
  "py_lower c = (if 65 \<le> (of_char c :: nat) \<and> (of_char c :: nat) \<le> 90
                 then char_of ((of_char c :: nat) + 32) else c)"

fun camelize_rest :: "string \<Rightarrow> string" where
  "camelize_rest [] = []"
| "camelize_rest [c] = [c]"
| "camelize_rest (c # d # rest) =
     (if c = CHR ''_'' \<and> d \<noteq> CHR 0x0A then py_upper d # camelize_rest rest
      else c # camelize_rest (d # rest))"

fun camelize_upper :: "string \<Rightarrow> string" where
  "camelize_upper [] = []"
| "camelize_upper (c # rest) =
     (if c \<noteq> CHR 0x0A then py_upper c # camelize_rest rest else camelize_rest (c # rest))"

definition camelize_lower :: "string \<Rightarrow> py_error + string" where
  "camelize_lower string =
     (case string of
        [] \<Rightarrow> Inl IndexError
      | c # rest \<Rightarrow> Inr (py_lower c # tl (camelize_upper string)))"

declare camelize_rest.simps [simp del] camelize_upper.simps [simp del]

text \<open>The CRUD operations as the strings they are in the source.\<close>

fun crud_string :: "crud \<Rightarrow> string" where
  "crud_string CREATE = ''create''"
| "crud_string READ = ''read''"
| "crud_string UPDATE = ''update''"
| "crud_string DELETE = ''delete''"


declare crud_string.simps [simp del]

section \<open>The type generator\<close>

text \<open>
  Modelled from the spec: \<^verbatim>\<open>R.prop_eq_or\<close> of the absent \<^verbatim>\<open>ramda\<close> module, applied to
  the entry \<^verbatim>\<open>value.get(crud)\<close>. As its name says, \<^verbatim>\<open>prop_eq_or(default, key, value, dct)\<close>
  tests whether the entry equals the value and returns the default when the key has no
  entry ("a field is included ... iff its perOperationPermission[operation] is not DENY.
  If the field is unset for that operation, default to included-but-optional").
\<close>

definition R_prop_eq_or :: "bool \<Rightarrow> perm_value option \<Rightarrow> permission \<Rightarrow> bool" where
  "R_prop_eq_or default_value entry v =
     (case entry of None \<Rightarrow> default_value | Some x \<Rightarrow> x = PermStr v)"

text \<open>
  Modelled from the spec: \<^verbatim>\<open>R.prop_eq_or_in_or\<close> of the absent \<^verbatim>\<open>ramda\<close> module, applied
  to the entry \<^verbatim>\<open>value.get(crud)\<close>. As its name says,
  \<^verbatim>\<open>prop_eq_or_in_or(default, key, value, dct)\<close> tests whether the entry equals the value
  or is a list that contains it, and returns the default when the key has no entry ("a
  field is marked required ... iff perOperationPermission[operation] == REQUIRE", where
  "UNIQUE/PRIMARY may co-occur with a required/allowed setting per operation").
\<close>

definition R_prop_eq_or_in_or :: "bool \<Rightarrow> perm_value option \<Rightarrow> permission \<Rightarrow> bool" where
  "R_prop_eq_or_in_or default_value entry v =
     (case entry of
        None \<Rightarrow> default_value
      | Some (PermStr x) \<Rightarrow> x = v
      | Some (PermList xs) \<Rightarrow> v \<in> set xs)"


text \<open>
  Modelled from the spec: \<^verbatim>\<open>R.map_dict\<close> of the absent \<^verbatim>\<open>ramda\<close> module, which maps a
  function over the values of a dict and keeps the keys and their order. The mapped
  function may raise and may change the registry of generated types, so the registry is
  passed from one item to the next and the first exception ends the call.
\<close>

fun R_map_dict_stateful ::
  "('v \<Rightarrow> 's \<Rightarrow> py_error + ('w \<times> 's)) \<Rightarrow> ('k, 'v) dict \<Rightarrow> 's \<Rightarrow> py_error + (('k, 'w) dict \<times> 's)" where
  "R_map_dict_stateful f [] st = Inr ([], st)"
| "R_map_dict_stateful f ((key, v) # rest) st =
     (case f v st of
        Inl e \<Rightarrow> Inl e
      | Inr (w, st') \<Rightarrow>
          (case R_map_dict_stateful f rest st' of
             Inl e \<Rightarrow> Inl e
           | Inr (mapped, st'') \<Rightarrow> Inr ((key, w) # mapped, st'')))"

lemma R_map_dict_stateful_cong [fundef_cong]:
  assumes "dct = dct'" and "st = st'"
    and "\<And>key v s. (key, v) \<in> set dct' \<Longrightarrow> f v s = g v s"
  shows "R_map_dict_stateful f dct st = R_map_dict_stateful g dct' st'"
  unfolding assms(1,2) using assms(3)
proof (induction dct' arbitrary: st')
  case Nil
  show ?case by simp
next
  case (Cons kv dct')
  obtain key v where kv: "kv = (key, v)" by (cases kv)
  have head: "f v s = g v s" for s
    by (rule Cons.prems[of key]) (simp add: kv)
  have tail: "R_map_dict_stateful f dct' s = R_map_dict_stateful g dct' s" for s
  proof (rule Cons.IH)
    fix key' v' s' assume "(key', v') \<in> set dct'"
    then have "(key', v') \<in> set (kv # dct')" by simp
    then show "f v' s' = g v' s'" by (rule Cons.prems)
  qed
  show ?case by (simp add: kv head tail split: sum.split prod.split)
qed

text \<open>
  What the generator builds. An instance of a graphene scalar class with its
  \<^verbatim>\<open>required\<close> flag (\<^verbatim>\<open>graphene.String(required=...)\<close>); a
  \<^verbatim>\<open>graphene.InputField\<close> of a generated class, with its \<^verbatim>\<open>required\<close> flag; an instance
  of a generated class (\<^verbatim>\<open>input_type_class(value, READ)()\<close>). A generated class is the
  result of \<^verbatim>\<open>type(name, (InputObjectType,), fields)\<close>: a new class object with a name
  and a dict of fields. Class objects are compared by identity, so a generated class is
  known by its handle, the index at which the registry holds it.
\<close>

datatype graphene_instance =
  ScalarInstance graphene_scalar bool
  | InputField nat bool
  | InputObjectInstance nat

record input_object_type =
  iot_name :: string
  iot_fields :: "(string, graphene_instance) dict"

text \<open>
  The state of the process: the cache of the memoized \<open>input_type_class\<close> and the
  classes generated so far.
\<close>

record registry =
  cache :: "((graphene_class \<times> crud), nat) dict"
  classes :: "input_object_type list"

text \<open>
  Python's \<^verbatim>\<open>type(name, bases, attrs)\<close>: a class that no earlier handle denotes.
\<close>

definition new_type :: "string \<Rightarrow> (string, graphene_instance) dict \<Rightarrow> registry \<Rightarrow> nat \<times> registry" where
  "new_type name attrs st =
     (length (classes st), st\<lparr>classes := classes st @ [\<lparr>iot_name = name, iot_fields = attrs\<rparr>]\<rparr>)"

text \<open>
  Modelled from the spec: the \<^verbatim>\<open>memoize\<close> decorator of the repository's \<^verbatim>\<open>memoize\<close>
  module, which is not among the sources. The source decorates \<open>input_type_class\<close> with
  \<^verbatim>\<open>@memoize(map_args=lambda args: [args[0]['graphene_type'], args[1]])\<close>, so the key is
  the graphene type and the CRUD operation. The specification's rule: "the generator
  must look up (ownerTypeIdentity, operation) in the process-wide registry before
  constructing anything; if present, return the existing handle unchanged; only on a
  cache miss does it build a new handle, register it, and return it"; "cache entries are
  never evicted". The rule is about calls that are made one after another: a call for a
  key that is made inside a running call for the same key (a relation back to the same
  graphene type) finds no registered handle yet.
\<close>

definition memoize_get :: "graphene_class \<times> crud \<Rightarrow> registry \<Rightarrow> nat option" where
  "memoize_get key st = map_of (cache st) key"

text \<open>
  Modelled from the spec: the store of the \<^verbatim>\<open>memoize\<close> decorator, which registers the
  handle that was built on a cache miss under its key ("build a new handle, register it,
  and return it").
\<close>

definition memoize_put :: "graphene_class \<times> crud \<Rightarrow> nat \<Rightarrow> registry \<Rightarrow> registry" where
  "memoize_put key handle st = st\<lparr>cache := dict_set key handle (cache st)\<rparr>"

subsection \<open>A measure for the recursion into related types\<close>

text \<open>
  The generator recurses from a field dict value into the field dict values that the
  \<^verbatim>\<open>type\<close> closures of its fields hold. After the merge with the Django model these are
  the values of the fields of the policy, so the recursion descends in the policy.
\<close>

definition related_size :: "field_dict_value \<Rightarrow> nat" where
  "related_size v =
     (case fdv_type v of
        Some (RelatedInputFieldForCrudType related) \<Rightarrow> Suc (size related)
      | _ \<Rightarrow> 0)"

definition fields_cap :: "field_dict \<Rightarrow> nat" where
  "fields_cap fields_dict = Max (insert 0 ((\<lambda>key_value. related_size (snd key_value)) ` set fields_dict))"

lemma fields_smaller:
  assumes "fdv_fields v = Some policy" and "(key, related) \<in> set policy"
  shows "size related < size v"
proof -
  have "size related < size_prod (\<lambda>x. 0) size (key, related)" by simp
  with assms(2) have "size related < size_list (size_prod (\<lambda>x. 0) size) policy"
    by (rule size_list_estimation)
  with assms(1) show ?thesis by (cases v) simp
qed

lemma related_size_le: "related_size v \<le> size v"
  by (cases v) (simp add: related_size_def split: option.split graphene_type_value.split)

lemma fields_cap_ge: "(key, v) \<in> set fields_dict \<Longrightarrow> related_size v \<le> fields_cap fields_dict"
  unfolding fields_cap_def by (rule Max_ge) force+

lemma fields_cap_le:
  assumes "\<And>key v. (key, v) \<in> set fields_dict \<Longrightarrow> related_size v \<le> n"
  shows "fields_cap fields_dict \<le> n"
  unfolding fields_cap_def using assms by (subst Max_le_iff) force+

lemma fold_dict_set_items:
  "set (fold (\<lambda>(k, v) dct. dict_set k v dct) pairs acc) \<subseteq> set pairs \<union> set acc"
proof (induction pairs arbitrary: acc)
  case Nil
  show ?case by simp
next
  case (Cons p pairs)
  obtain k v where p: "p = (k, v)" by (cases p)
  have "set (dict_set k v acc) \<subseteq> insert (k, v) (set acc)"
    by (induction k v acc rule: dict_set.induct) auto
  with Cons.IH[of "dict_set k v acc"] show ?case by (auto simp: p)
qed

lemma parsed_types:
  assumes "parse_django_class model field_dict = Inr parsed" and "(key, processed) \<in> set parsed"
  shows "(\<exists>scalar. pf_type processed = ScalarClass scalar)
       \<or> (\<exists>key' related. (key', related) \<in> set field_dict
             \<and> pf_type processed = RelatedInputFieldForCrudType related)"
    (is "?P processed")
proof -
  let ?fields = "filter (\<lambda>field. R_has (field_name field) field_dict) (meta_fields model)"
  from assms(1) obtain f pairs where run: "R_map_raising f ?fields = Inr pairs"
    and parsed: "parsed = R_from_pairs pairs"
    and f: "\<And>field pair. f field = Inr pair \<Longrightarrow> ?P (snd pair)"
    unfolding parse_django_class_def Let_def
    by (fastforce simp: process_field_def django_to_graphene_type_def R_prop_def
          dest: map_of_SomeD split: sum.splits option.splits if_splits)
  from R_map_raising_Inr[OF run] have "list_all2 (\<lambda>field pair. ?P (snd pair)) ?fields pairs"
    by (rule list_all2_mono) (rule f)
  then have all: "\<forall>pair \<in> set pairs. ?P (snd pair)"
    by (induction rule: list_all2_induct) simp_all
  from assms(2) fold_dict_set_items[of pairs "[]"] have "(key, processed) \<in> set pairs"
    by (auto simp: parsed R_from_pairs_def)
  with all show ?thesis by force
qed

lemma R_merge_deep_entries:
  assumes "(key, v) \<in> set (R_merge_deep dct1 dct2)"
  shows "(key, v) \<in> set dct1
       \<or> (\<exists>processed. (key, processed) \<in> set dct2 \<and> fdv_type v = Some (pf_type processed))"
proof -
  from assms consider
      (left) v' where "(key, v') \<in> set dct1"
        "(key, v) = (case map_of dct2 key of None \<Rightarrow> (key, v')
                     | Some processed \<Rightarrow> (key, merge_deep_value v' processed))"
    | (right) processed where "(key, processed) \<in> set dct2"
        "v = FieldDictValue (Some (pf_type processed)) None None [] (Some (pf_unique processed))"
    unfolding R_merge_deep_def by (auto split: option.splits)
  then show ?thesis
  proof cases
    case left
    show ?thesis
    proof (cases "map_of dct2 key")
      case None
      with left show ?thesis by simp
    next
      case (Some processed)
      then have "(key, processed) \<in> set dct2" by (rule map_of_SomeD)
      moreover from left(2) Some have "fdv_type v = Some (pf_type processed)"
        by (simp add: merge_deep_value_def)
      ultimately show ?thesis by blast
    qed
  next
    case right
    then show ?thesis by auto
  qed
qed

lemma merged_related_size:
  assumes merged: "merge_with_django_properties graphene_class policy = Inr fields_dict"
    and entry: "(key, v) \<in> set fields_dict"
  shows "\<exists>key' v'. (key', v') \<in> set policy \<and> related_size v \<le> Suc (size v')"
proof -
  from merged obtain model parsed where parsed: "parse_django_class model policy = Inr parsed"
    and fd: "fields_dict = R_merge_deep policy (R_pick (R_keys policy) parsed)"
    by (auto simp: merge_with_django_properties_def split: option.splits sum.splits)
  from R_merge_deep_entries[OF entry[unfolded fd]] show ?thesis
  proof
    assume "(key, v) \<in> set policy"
    moreover have "related_size v \<le> Suc (size v)"
      using related_size_le[of v] by simp
    ultimately show ?thesis by blast
  next
    assume "\<exists>processed. (key, processed) \<in> set (R_pick (R_keys policy) parsed)
              \<and> fdv_type v = Some (pf_type processed)"
    then obtain processed where in_parsed: "(key, processed) \<in> set parsed"
      and type: "fdv_type v = Some (pf_type processed)"
      by (auto simp: R_pick_def)
    from parsed_types[OF parsed in_parsed] show ?thesis
    proof (elim disjE exE conjE)
      fix scalar assume "pf_type processed = ScalarClass scalar"
      with type have "related_size v = 0" by (simp add: related_size_def)
      moreover from parsed in_parsed have "policy \<noteq> []"
        using parse_django_class_keys[OF parsed] by (auto simp: R_has_def R_keys_def)
      then obtain key' v' where "(key', v') \<in> set policy" by (cases policy) auto
      ultimately show ?thesis by (intro exI[of _ key'] exI[of _ v']) simp
    next
      fix key' related
      assume "(key', related) \<in> set policy" "pf_type processed = RelatedInputFieldForCrudType related"
      with type show ?thesis
        by (intro exI[of _ key'] exI[of _ related]) (simp add: related_size_def)
    qed
  qed
qed

lemma generated_fields_cap:
  assumes fields: "fdv_fields v = Some policy"
    and chosen: "(if meta_model graphene_class \<noteq> None
                  then merge_with_django_properties graphene_class policy
                  else Inr policy) = Inr fields_dict"
  shows "fields_cap fields_dict \<le> size v"
proof (rule fields_cap_le)
  fix key entry assume entry: "(key, entry) \<in> set fields_dict"
  show "related_size entry \<le> size v"
  proof (cases "meta_model graphene_class \<noteq> None")
    case True
    with chosen have "merge_with_django_properties graphene_class policy = Inr fields_dict"
      by simp
    from merged_related_size[OF this entry] obtain key' v'
      where "(key', v') \<in> set policy" and le: "related_size entry \<le> Suc (size v')"
      by blast
    with fields_smaller[OF fields] have "size v' < size v" by blast
    with le show ?thesis by simp
  next
    case False
    with chosen entry have "(key, entry) \<in> set policy" by simp
    with fields_smaller[OF fields] have "size entry < size v" by blast
    with related_size_le[of entry] show ?thesis by simp
  qed
qed

subsection \<open>The generator\<close>

text \<open>
  \<^verbatim>\<open>
  @memoize(map_args=lambda args: [args[0]['graphene_type'], args[1]])
  def input_type_class(field_dict_value, crud):
      graphene_class = field_dict_value['graphene_type']
      return type(
          '%sRelated%sInputType' % (graphene_class.__name__, camelize(crud, True)),
          (InputObjectType,),
          input_type_fields(
              merge_with_django_properties(
                  field_dict_value['graphene_type'],
                  field_dict_value['fields']
              ) if hasattr(graphene_class._meta, 'model') else
              field_dict_value['fields'],
              crud
          )
      )

  def input_type_fields(fields_dict, crud=None):
      crud = crud or guess_update_or_create(fields_dict)
      return R.map_dict(
          lambda value: instantiate_graphene_type(value, crud),
          R.filter_dict(
              lambda key_value: R.not_func(R.prop_eq_or(False, crud, DENY, key_value[1])),
              fields_dict
          )
      )

  def instantiate_graphene_type(value, crud):
      graphene_type = R.prop('type', value)
      resolved_graphene_type = graphene_type(crud) if R.isfunction(graphene_type) else graphene_type
      return resolved_graphene_type(
          required=R.prop_eq_or_in_or(False, crud, REQUIRE, value)
      )
  \<close>
  A \<^verbatim>\<open>type\<close> that is a function is the closure of
  \<^verbatim>\<open>related_input_field_for_crud_type(field_dict_value)\<close>; called with the CRUD
  operation and then with \<^verbatim>\<open>required=...\<close> it returns
  \<^verbatim>\<open>graphene.InputField(input_type_class(field_dict_value, crud), required=...)\<close>
  (\<^verbatim>\<open>related_input_field\<close>). The three functions call each other, and each takes the
  registry and returns it with the result.
\<close>

function input_type_class ::
    "field_dict_value \<Rightarrow> crud \<Rightarrow> registry \<Rightarrow> py_error + (nat \<times> registry)"
  and input_type_fields ::
    "field_dict \<Rightarrow> crud option \<Rightarrow> registry \<Rightarrow> py_error + ((string, graphene_instance) dict \<times> registry)"
  and instantiate_graphene_type ::
    "field_dict_value \<Rightarrow> crud \<Rightarrow> registry \<Rightarrow> py_error + (graphene_instance \<times> registry)"
where
  "input_type_class field_dict_value crud st =
     (case R_prop (fdv_graphene_type field_dict_value) of
        Inl e \<Rightarrow> Inl e
      | Inr graphene_class \<Rightarrow>
          (case memoize_get (graphene_class, crud) st of
             Some handle \<Rightarrow> Inr (handle, st)
           | None \<Rightarrow>
               (case R_prop (fdv_fields field_dict_value) of
                  Inl e \<Rightarrow> Inl e
                | Inr policy \<Rightarrow>
                    (case (if meta_model graphene_class \<noteq> None
                           then merge_with_django_properties graphene_class policy
                           else Inr policy) of
                       Inl e \<Rightarrow> Inl e
                     | Inr fields_dict \<Rightarrow>
                         (case input_type_fields fields_dict (Some crud) st of
                            Inl e \<Rightarrow> Inl e
                          | Inr (input_fields, st') \<Rightarrow>
                              (case new_type
                                      (class_name graphene_class @ ''Related'' @ camelize_upper (crud_string crud)
                                         @ ''InputType'')
                                      input_fields st' of
                                 (handle, st'') \<Rightarrow>
                                   Inr (handle, memoize_put (graphene_class, crud) handle st'')))))))"
| "input_type_fields fields_dict crud_arg st =
     (let crud = (case crud_arg of None \<Rightarrow> guess_update_or_create fields_dict | Some c \<Rightarrow> c)
      in R_map_dict_stateful
           (\<lambda>v. instantiate_graphene_type v crud)
           (R_filter_dict
              (\<lambda>key_value. \<not> R_prop_eq_or False (map_of (fdv_crud (snd key_value)) crud) DENY)
              fields_dict)
           st)"
| "instantiate_graphene_type v crud st =
     (case R_prop (fdv_type v) of
        Inl e \<Rightarrow> Inl e
      | Inr graphene_type \<Rightarrow>
          (let required = R_prop_eq_or_in_or False (map_of (fdv_crud v) crud) REQUIRE
           in case graphene_type of
                ScalarClass scalar \<Rightarrow> Inr (ScalarInstance scalar required, st)
              | RelatedInputFieldForCrudType related \<Rightarrow>
                  (case input_type_class related crud st of
                     Inl e \<Rightarrow> Inl e
                   | Inr (handle, st') \<Rightarrow> Inr (InputField handle required, st'))))"
  by pat_completeness auto


termination
proof (relation "measure (case_sum (\<lambda>(v, crud, st). 3 * size v + 2)
           (case_sum (\<lambda>(fields_dict, crud_arg, st). 3 * fields_cap fields_dict + 1)
              (\<lambda>(v, crud, st). 3 * related_size v)))", goal_cases)
  case 1
  show ?case by simp
next
  case (2 field_dict_value crud st graphene_class policy fields_dict)
  from 2(3) have "fdv_fields field_dict_value = Some policy"
    by (simp add: R_prop_def split: option.splits)
  from generated_fields_cap[OF this 2(4)] show ?case by simp
next
  case (3 fields_dict crud_arg st crud key v)
  then have "(key, v) \<in> set fields_dict" by (simp add: R_filter_dict_def)
  from fields_cap_ge[OF this] show ?case by simp
next
  case (4 v crud st graphene_type required related)
  from 4(1) have "related_size v = Suc (size related)"
    by (simp add: R_prop_def related_size_def 4(3) split: option.splits)
  then show ?case by simp
qed


text \<open>The \<^verbatim>\<open>required\<close> flag of an instance.\<close>

fun is_required :: "graphene_instance \<Rightarrow> bool" where
  "is_required (ScalarInstance scalar required) = required"
| "is_required (InputField handle required) = required"
| "is_required (InputObjectInstance handle) = False"





section \<open>The upsert parameters\<close>

text \<open>
  Modelled from the spec: \<^verbatim>\<open>R.item_path\<close> of the absent \<^verbatim>\<open>ramda\<close> module, at the
  path \<^verbatim>\<open>[key, 'unique']\<close> of a field dict. The specification's partitioner looks up
  the resolved spec of each key and "fails with UnknownFieldError if a key in valuesBag
  has no corresponding entry in resolvedSpecs"; a path that does not resolve fails.
\<close>

definition R_item_path_unique :: "string \<Rightarrow> field_dict \<Rightarrow> py_error + unique_tag list" where
  "R_item_path_unique key fields_dict =
     (case map_of fields_dict key of
        None \<Rightarrow> Inl UnknownFieldError
      | Some value \<Rightarrow>
          (case fdv_unique value of
             None \<Rightarrow> Inl UnknownFieldError
           | Some unique \<Rightarrow> Inr unique))"

text \<open>
  Modelled from the spec: \<^verbatim>\<open>R.length\<close> of the absent \<^verbatim>\<open>ramda\<close> module, the length of a
  list ("if uniquenessTags is nonempty").
\<close>

definition R_length :: "'a list \<Rightarrow> nat" where
  "R_length lst = length lst"

text \<open>
  The truth value of a number in Python: \<open>0\<close> is false and every other number is true.
\<close>

definition py_truthy :: "nat \<Rightarrow> bool" where
  "py_truthy n = (n \<noteq> 0)"

text \<open>
  Modelled from the spec: \<^verbatim>\<open>R.not_func\<close> of the absent \<^verbatim>\<open>ramda\<close> module, Python's
  \<^verbatim>\<open>not\<close> ("otherwise place it in defaults").
\<close>

definition R_not_func :: "nat \<Rightarrow> bool" where
  "R_not_func n = (\<not> py_truthy n)"

text \<open>
  Modelled from the spec: \<^verbatim>\<open>R.filter_dict\<close> of the absent \<^verbatim>\<open>ramda\<close> module, with a
  predicate that can raise: the items are tested in order and the first exception ends
  the call ("there is no partial success").
\<close>

fun R_filter_dict_raising ::
  "('k \<times> 'v \<Rightarrow> py_error + bool) \<Rightarrow> ('k, 'v) dict \<Rightarrow> py_error + ('k, 'v) dict" where
  "R_filter_dict_raising f [] = Inr []"
| "R_filter_dict_raising f (key_value # rest) =
     (case f key_value of
        Inl e \<Rightarrow> Inl e
      | Inr keep \<Rightarrow>
          (case R_filter_dict_raising f rest of
             Inl e \<Rightarrow> Inl e
           | Inr kept \<Rightarrow> Inr (if keep then key_value # kept else kept)))"

text \<open>
  The dict that \<^verbatim>\<open>dict(defaults=..., **unique_fields)\<close> builds has the key
  \<^verbatim>\<open>defaults\<close>, bound to a dict, and beside it one key per unique field, bound to the
  field's value. Python raises \<^verbatim>\<open>TypeError\<close> (multiple values for a keyword argument)
  when the unpacked dict itself has the key \<^verbatim>\<open>defaults\<close>.
\<close>

datatype 'v upsert_entry = Defaults "(string, 'v) dict" | Lookup 'v

definition dict_defaults_kwargs ::
  "(string, 'v) dict \<Rightarrow> (string, 'v) dict \<Rightarrow> py_error + (string, 'v upsert_entry) dict" where
  "dict_defaults_kwargs defaults kwargs =
     (if R_has ''defaults'' kwargs then Inl TypeError
      else Inr ((''defaults'', Defaults defaults) # map (\<lambda>(k, v). (k, Lookup v)) kwargs))"

text \<open>
  \<^verbatim>\<open>
  def input_type_parameters_for_update_or_create(fields_dict, values):
      return dict(
          defaults=R.filter_dict(
              lambda key_value: R.not_func(R.length(R.item_path([key_value[0], 'unique'], fields_dict))),
              values
          ),
          **R.filter_dict(
              lambda key_value: R.length(R.item_path([key_value[0], 'unique'], fields_dict)),
              values
          )
      )
  \<close>
\<close>

definition input_type_parameters_for_update_or_create ::
  "field_dict \<Rightarrow> (string, 'v) dict \<Rightarrow> py_error + (string, 'v upsert_entry) dict" where
  "input_type_parameters_for_update_or_create fields_dict values =
     (case R_filter_dict_raising
             (\<lambda>key_value. map_sum id (\<lambda>unique. R_not_func (R_length unique))
                (R_item_path_unique (fst key_value) fields_dict))
             values of
        Inl e \<Rightarrow> Inl e
      | Inr defaults \<Rightarrow>
          (case R_filter_dict_raising
                  (\<lambda>key_value. map_sum id (\<lambda>unique. py_truthy (R_length unique))
                     (R_item_path_unique (fst key_value) fields_dict))
                  values of
             Inl e \<Rightarrow> Inl e
           | Inr unique_fields \<Rightarrow> dict_defaults_kwargs defaults unique_fields))"

section \<open>The query document\<close>

text \<open>The line break and the indentation of the source's triple-quoted template.\<close>

definition newline :: string where
  "newline = [CHR 0x0A]"

definition spaces :: "nat \<Rightarrow> string" where
  "spaces n = replicate n (CHR '' '')"

text \<open>
  Modelled from the spec: \<^verbatim>\<open>dump_graphql_keys\<close> of the repository's
  \<^verbatim>\<open>graphene_helpers\<close> module, which is not among the sources. The specification's
  builder selects "the field set ..., recursing into relation fields to produce nested
  selections", and "every name crossing into a rendered document ... is converted to a
  camel-case wire convention". Each key is rendered in camel case on a line of its own; a
  field with a nested field dict is followed by the selection of that dict in braces.
\<close>

function dump_graphql_keys :: "field_dict \<Rightarrow> py_error + string" where
  "dump_graphql_keys dct =
     (case R_map_raising
             (\<lambda>key_value.
                case camelize_lower (fst key_value) of
                  Inl e \<Rightarrow> Inl e
                | Inr name \<Rightarrow>
                    (case fdv_fields (snd key_value) of
                       None \<Rightarrow> Inr name
                     | Some nested \<Rightarrow>
                         (case dump_graphql_keys nested of
                            Inl e \<Rightarrow> Inl e
                          | Inr selection \<Rightarrow>
                              Inr (name @ '' {'' @ newline @ selection @ newline @ ''}''))))
             dct of
        Inl e \<Rightarrow> Inl e
      | Inr selections \<Rightarrow> Inr (R_join newline selections))"
  by pat_completeness auto
termination
proof (relation "measure (size_list (size_prod (\<lambda>key. 0) size))", goal_cases)
  case 1
  show ?case by simp
next
  case (2 dct key_value name nested)
  obtain key v where kv: "key_value = (key, v)" by (cases key_value)
  from 2(3) have "size_list (size_prod (\<lambda>key. 0) size) nested < size v"
    by (cases v) (simp add: kv)
  also have "size v < size_prod (\<lambda>key. 0) size (key, v)" by simp
  also from 2(1) have "\<dots> \<le> size_list (size_prod (\<lambda>key. 0) size) dct"
    unfolding kv by (rule size_list_estimation') simp
  finally show ?case by simp
qed

declare dump_graphql_keys.simps [simp del]

text \<open>
  Modelled from the spec: \<^verbatim>\<open>R.values\<close> of the absent \<^verbatim>\<open>ramda\<close> module, the values of a
  dict in order ("declaring variableDefs as typed parameters").
\<close>

definition R_values :: "('k, 'v) dict \<Rightarrow> 'v list" where
  "R_values dct = map snd dct"

text \<open>
  Modelled from the spec: \<^verbatim>\<open>R.map_with_obj\<close> of the absent \<^verbatim>\<open>ramda\<close> module, the dict
  whose values are a function of key and value ("declaring variableDefs as typed
  parameters").
\<close>

definition R_map_with_obj :: "('k \<Rightarrow> 'v \<Rightarrow> 'w) \<Rightarrow> ('k, 'v) dict \<Rightarrow> ('k, 'w) dict" where
  "R_map_with_obj f dct = map (\<lambda>(key, v). (key, f key v)) dct"

text \<open>
  \<^verbatim>\<open>
  @R.curry
  def graphql_query(query_name, fields):
      def form_query(client, variable_definitions={}, field_overrides={}, **kwargs):
          formatted_definitions = R.join(
              ', ',
              R.values(
                  R.map_with_obj(
                      lambda key, value: '$%s: %s!' % (key, value),
                      variable_definitions
                  )
              )
          )
          query = '''query someMadeUpString%s { 
                  %s%s {
                      %s
                  }
              }''' % (
              '(%s)' % formatted_definitions if formatted_definitions else '',
              query_name,
              '(%s)' %
              R.join(
                  ', ',
                  R.map(
                      lambda key: '%s: $%s' % (key, key),
                      R.keys(variable_definitions))
              ) if variable_definitions else '',
              dump_graphql_keys(field_overrides or fields)
          )
          return client.execute(query, **kwargs)
      return form_query
  \<close>
  In the source the template's lines are indented by 16, 20, 16 and 12 blanks. The helper
  \<^verbatim>\<open>dump_graphql_keys\<close> is a parameter, \<open>dump_keys\<close>; \<open>client\<close> stands for
  \<^verbatim>\<open>client.execute\<close>, which gets the document and the keyword arguments.
\<close>

definition graphql_query ::
  "(field_dict \<Rightarrow> py_error + string) \<Rightarrow> string \<Rightarrow> field_dict \<Rightarrow> (string \<Rightarrow> 'kw \<Rightarrow> 'r)
     \<Rightarrow> (string, string) dict \<Rightarrow> field_dict \<Rightarrow> 'kw \<Rightarrow> py_error + 'r" where
  "graphql_query dump_keys query_name fields_dict client variable_definitions field_overrides kwargs =
     (let formatted_definitions = R_join '', ''
            (R_values
               (R_map_with_obj (\<lambda>key v. ''$'' @ key @ '': '' @ v @ ''!'') variable_definitions))
      in case dump_keys (if field_overrides \<noteq> [] then field_overrides else fields_dict) of
           Inl e \<Rightarrow> Inl e
         | Inr keys \<Rightarrow>
             Inr (client
                    (''query someMadeUpString''
                       @ (if formatted_definitions \<noteq> [] then ''('' @ formatted_definitions @ '')'' else [])
                       @ '' { '' @ newline
                       @ spaces 16 @ query_name
                       @ (if variable_definitions \<noteq> []
                          then ''('' @ R_join '', '' (map (\<lambda>key. key @ '': $'' @ key) (R_keys variable_definitions)) @ '')''
                          else [])
                       @ '' {'' @ newline
                       @ spaces 20 @ keys @ newline
                       @ spaces 16 @ ''}'' @ newline
                       @ spaces 12 @ ''}'')
                    kwargs))"

text \<open>A client that returns the document it is given.\<close>

definition document_of :: "string \<Rightarrow> unit \<Rightarrow> string" where
  "document_of document kwargs = document"

section \<open>Vocabulary of the properties\<close>

text \<open>
  The \<^verbatim>\<open>unique\<close> list that a field dict holds for a key, if the key has an entry and
  the entry has a \<^verbatim>\<open>unique\<close> list: the uniqueness tags of a resolved field spec.
\<close>

definition unique_tags_of :: "field_dict \<Rightarrow> string \<Rightarrow> unique_tag list option" where
  "unique_tags_of fields_dict key =
     (case map_of fields_dict key of None \<Rightarrow> None | Some value \<Rightarrow> fdv_unique value)"

text \<open>
  The permission of a field for a CRUD operation is \<open>REQUIRE\<close> or is a list that contains
  \<open>REQUIRE\<close>.
\<close>

definition requires :: "field_dict_value \<Rightarrow> crud \<Rightarrow> bool" where
  "requires v crud =
     (case map_of (fdv_crud v) crud of
        None \<Rightarrow> False
      | Some (PermStr tag) \<Rightarrow> tag = REQUIRE
      | Some (PermList tags) \<Rightarrow> REQUIRE \<in> set tags)"




section \<open>Example data\<close>

text \<open>
  A model with the fields \<open>id\<close> (the primary key), \<open>name\<close> and \<open>secret\<close>, the last two
  unique together, and a graphene type class over it.
\<close>

definition widget_model :: django_model where
  "widget_model = \<lparr>meta_fields =
       [\<lparr>field_name = ''id'', field_attname = ''id'', field_primary_key = True,
         field_unique = True, field_class = AutoField\<rparr>,
        \<lparr>field_name = ''name'', field_attname = ''name'', field_primary_key = False,
         field_unique = False, field_class = CharField\<rparr>,
        \<lparr>field_name = ''secret'', field_attname = ''secret'', field_primary_key = False,
         field_unique = False, field_class = TextField\<rparr>],
     meta_unique_together = [[''name'', ''secret'']]\<rparr>"

definition WidgetType :: graphene_class where
  "WidgetType = \<lparr>class_id = 1, class_name = ''WidgetType'', meta_model = Some widget_model\<rparr>"

text \<open>
  The registry before any type was generated; a relation to a widget that exposes only
  its \<open>id\<close>; a relation to the same graphene type that exposes \<open>id\<close> and \<open>name\<close>; the
  registry after the first was generated for \<open>CREATE\<close>; and a merged field dict of the
  widget model.
\<close>

definition empty_registry :: registry where
  "empty_registry = \<lparr>cache = [], classes = []\<rparr>"




definition widget_fields :: field_dict where
  "widget_fields =
     [(''id'', FieldDictValue (Some (ScalarClass GrapheneInt)) None None
                [(CREATE, PermStr DENY), (UPDATE, PermStr REQUIRE)] (Some [Tag PRIMARY, Tag UNIQUE])),
      (''name'', FieldDictValue (Some (ScalarClass GrapheneString)) None None
                  [(CREATE, PermList [REQUIRE, UNIQUE]), (UPDATE, PermStr ALLOW)]
                  (Some [Groups [''name,secret'']])),
      (''secret'', FieldDictValue (Some (ScalarClass GrapheneString)) None None
                    [(READ, PermStr DENY)] (Some [Groups [''name,secret'']]))]"






section \<open>Properties\<close>

subsection \<open>The create-or-update guess\<close>

text \<open>
  Claim C4. For every values bag, \<open>guess_update_or_create\<close> returns \<open>UPDATE\<close> if the bag
  has the key \<open>id\<close> and \<open>CREATE\<close> otherwise; the bag \<open>{id: 5, name: "x"}\<close> gives
  \<open>UPDATE\<close>, the bag \<open>{name: "x"}\<close> gives \<open>CREATE\<close>; and two bags get the same answer
  exactly when they agree on having the key \<open>id\<close>, whatever their other keys and values.
\<close>

theorem guess_update_or_create_by_id:
  "guess_update_or_create values =
     (if ''id'' \<in> set (R_keys values) then UPDATE else CREATE)
   \<and> guess_update_or_create [(''id'', Inl (5::int)), (''name'', Inr ''x'')] = UPDATE
   \<and> guess_update_or_create [(''name'', (Inr ''x'' :: int + string))] = CREATE
   \<and> ((''id'' \<in> set (R_keys values)) = (''id'' \<in> set (R_keys values'))) =
       (guess_update_or_create values = guess_update_or_create values')"
  by (simp add: guess_update_or_create_def R_has_iff_key) (simp add: R_keys_def)

subsection \<open>The upsert parameters\<close>

lemma R_item_path_unique_tags:
  "R_item_path_unique key fields_dict =
     (case unique_tags_of fields_dict key of None \<Rightarrow> Inl UnknownFieldError | Some u \<Rightarrow> Inr u)"
  by (simp add: R_item_path_unique_def unique_tags_of_def split: option.splits)

lemma R_filter_dict_raising_total:
  "(\<And>kv. kv \<in> set dct \<Longrightarrow> f kv = Inr (p kv)) \<Longrightarrow> R_filter_dict_raising f dct = Inr (filter p dct)"
  by (induction dct) simp_all

lemma R_filter_dict_raising_fails:
  assumes "kv \<in> set dct" and "f kv = Inl e"
    and only: "\<And>kv' e'. kv' \<in> set dct \<Longrightarrow> f kv' = Inl e' \<Longrightarrow> e' = e"
  shows "R_filter_dict_raising f dct = Inl e"
  using assms
proof (induction dct)
  case Nil
  then show ?case by simp
next
  case (Cons a dct)
  show ?case
  proof (cases "f a")
    case (Inl e')
    have "a \<in> set (a # dct)" by simp
    from Cons.prems(3)[OF this Inl] Inl show ?thesis by simp
  next
    case (Inr keep)
    with Cons.prems(1,2) have in_rest: "kv \<in> set dct" by auto
    have "R_filter_dict_raising f dct = Inl e"
    proof (rule Cons.IH[OF in_rest Cons.prems(2)])
      fix kv' e' assume "kv' \<in> set dct" "f kv' = Inl e'"
      then show "e' = e" using Cons.prems(3)[of kv' e'] by simp
    qed
    with Inr show ?thesis by simp
  qed
qed

lemma defaults_test:
  "unique_tags_of fields_dict key = Some u \<Longrightarrow>
   map_sum id (\<lambda>unique. R_not_func (R_length unique)) (R_item_path_unique key fields_dict)
     = Inr (unique_tags_of fields_dict key = Some [])"
  by (simp add: R_item_path_unique_tags R_not_func_def py_truthy_def R_length_def)

lemma unique_test:
  "unique_tags_of fields_dict key = Some u \<Longrightarrow>
   map_sum id (\<lambda>unique. py_truthy (R_length unique)) (R_item_path_unique key fields_dict)
     = Inr (unique_tags_of fields_dict key \<noteq> Some [])"
  by (simp add: R_item_path_unique_tags py_truthy_def R_length_def)

text \<open>
  Claim C5, as amended. For every values bag whose keys all have a resolved spec (an entry
  of the field dict with a \<^verbatim>\<open>unique\<close> list), and in which no key with a nonempty
  \<^verbatim>\<open>unique\<close> list is named \<open>defaults\<close>, the partitioner returns a dict that binds
  \<open>defaults\<close> to the items whose \<^verbatim>\<open>unique\<close> list is empty and holds beside it, as
  lookup keys, the items whose \<^verbatim>\<open>unique\<close> list is nonempty; the two key sets are
  disjoint and their union is the key set of the bag.
\<close>

theorem partition_by_unique_tags:
  assumes known: "\<forall>key \<in> set (R_keys values). unique_tags_of fields_dict key \<noteq> None"
    and no_clash: "\<forall>key \<in> set (R_keys values). key = ''defaults'' \<longrightarrow> unique_tags_of fields_dict key = Some []"
  shows "\<exists>defaults unique_fields.
      input_type_parameters_for_update_or_create fields_dict values =
        Inr ((''defaults'', Defaults defaults) # map (\<lambda>(k, v). (k, Lookup v)) unique_fields)
    \<and> unique_fields = filter (\<lambda>key_value. unique_tags_of fields_dict (fst key_value) \<noteq> Some []) values
    \<and> defaults = filter (\<lambda>key_value. unique_tags_of fields_dict (fst key_value) = Some []) values
    \<and> set (R_keys unique_fields) \<inter> set (R_keys defaults) = {}
    \<and> set (R_keys unique_fields) \<union> set (R_keys defaults) = set (R_keys values)"
proof -
  let ?u = "\<lambda>key_value :: string \<times> 'a. unique_tags_of fields_dict (fst key_value) \<noteq> Some []"
  let ?d = "\<lambda>key_value :: string \<times> 'a. unique_tags_of fields_dict (fst key_value) = Some []"
  have tag: "\<exists>u. unique_tags_of fields_dict (fst kv) = Some u" if "kv \<in> set values" for kv
  proof -
    from that have "fst kv \<in> set (R_keys values)" by (simp add: R_keys_def)
    with known show ?thesis by blast
  qed
  have d: "R_filter_dict_raising
             (\<lambda>key_value. map_sum id (\<lambda>unique. R_not_func (R_length unique))
                (R_item_path_unique (fst key_value) fields_dict)) values = Inr (filter ?d values)"
  proof (rule R_filter_dict_raising_total)
    fix kv assume "kv \<in> set values"
    then obtain u where "unique_tags_of fields_dict (fst kv) = Some u"
      using tag by blast
    then show "map_sum id (\<lambda>unique. R_not_func (R_length unique))
                (R_item_path_unique (fst kv) fields_dict) = Inr (?d kv)"
      by (rule defaults_test)
  qed
  have u: "R_filter_dict_raising
             (\<lambda>key_value. map_sum id (\<lambda>unique. py_truthy (R_length unique))
                (R_item_path_unique (fst key_value) fields_dict)) values = Inr (filter ?u values)"
  proof (rule R_filter_dict_raising_total)
    fix kv assume "kv \<in> set values"
    then obtain u where "unique_tags_of fields_dict (fst kv) = Some u"
      using tag by blast
    then show "map_sum id (\<lambda>unique. py_truthy (R_length unique))
                (R_item_path_unique (fst kv) fields_dict) = Inr (?u kv)"
      by (rule unique_test)
  qed
  have nd: "\<not> R_has ''defaults'' (filter ?u values)"
  proof
    assume "R_has ''defaults'' (filter ?u values)"
    then have "''defaults'' \<in> fst ` set (filter ?u values)"
      by (simp add: R_has_iff_key R_keys_def)
    then obtain kv where kv: "kv \<in> set values" "fst kv = ''defaults''" "?u kv"
      by auto
    then have "''defaults'' \<in> set (R_keys values)" by (force simp: R_keys_def)
    with no_clash have "unique_tags_of fields_dict ''defaults'' = Some []" by blast
    with kv show False by simp
  qed
  have disj: "set (R_keys (filter ?u values)) \<inter> set (R_keys (filter ?d values)) = {}"
    unfolding R_keys_def set_map by auto
  have "set (filter ?u values) \<union> set (filter ?d values) = set values"
    by auto
  then have "fst ` (set (filter ?u values) \<union> set (filter ?d values)) = fst ` set values"
    by (rule arg_cong)
  then have un: "set (R_keys (filter ?u values)) \<union> set (R_keys (filter ?d values)) = set (R_keys values)"
    by (simp only: R_keys_def set_map image_Un)
  have res: "input_type_parameters_for_update_or_create fields_dict values =
        Inr ((''defaults'', Defaults (filter ?d values)) # map (\<lambda>(k, v). (k, Lookup v)) (filter ?u values))"
    unfolding input_type_parameters_for_update_or_create_def d u
    using nd by (simp add: dict_defaults_kwargs_def)
  show ?thesis
    apply (rule exI[of _ "filter ?d values"])
    apply (rule exI[of _ "filter ?u values"])
    apply (rule conjI, rule res)
    apply (rule conjI, rule refl)
    apply (rule conjI, rule refl)
    apply (rule conjI, rule disj)
    apply (rule un)
    done
qed

text \<open>
  The specification's example: \<open>name\<close> is tagged unique and \<open>note\<close> is untagged, and the
  bag \<open>{name: "a", note: "b"}\<close> is split into the lookup key \<open>name\<close> and the default
  \<open>note\<close>.
\<close>

theorem partition_by_unique_tags_witness:
  "input_type_parameters_for_update_or_create
     [(''name'', FieldDictValue None None None [(CREATE, PermStr REQUIRE)] (Some [Tag UNIQUE])),
      (''note'', FieldDictValue None None None [] (Some []))]
     [(''name'', ''a''), (''note'', ''b'')]
   = Inr [(''defaults'', Defaults [(''note'', ''b'')]), (''name'', Lookup ''a'')]"
  using partition_by_unique_tags
    [of "[(''name'', ''a''), (''note'', ''b'')]"
        "[(''name'', FieldDictValue None None None [(CREATE, PermStr REQUIRE)] (Some [Tag UNIQUE])),
          (''note'', FieldDictValue None None None [] (Some []))]"]
  by (simp add: R_keys_def unique_tags_of_def)

text \<open>
  Claim C5 as stated fails where a key with a nonempty \<^verbatim>\<open>unique\<close> list is named
  \<open>defaults\<close>: the bag's only key has a resolved spec, yet
  \<^verbatim>\<open>dict(defaults={}, **{'defaults': 'a'})\<close> raises \<^verbatim>\<open>TypeError\<close> and nothing is returned.
\<close>

theorem partition_defaults_key_counterexample:
  "R_keys [(''defaults'', ''a'')] = [''defaults'']
   \<and> unique_tags_of [(''defaults'', FieldDictValue None None None [] (Some [Tag UNIQUE]))] ''defaults''
       = Some [Tag UNIQUE]
   \<and> input_type_parameters_for_update_or_create
        [(''defaults'', FieldDictValue None None None [] (Some [Tag UNIQUE]))]
        [(''defaults'', ''a'')]
       = Inl TypeError"
  by (simp add: input_type_parameters_for_update_or_create_def R_item_path_unique_def
      dict_defaults_kwargs_def R_has_def R_keys_def unique_tags_of_def py_truthy_def
      R_not_func_def R_length_def)

text \<open>
  Claim C6. For every values bag that has a key with no entry in the field dict, the
  partitioner fails with \<open>UnknownFieldError\<close>: it returns no dict at all, so the key is
  not dropped and no partial result is produced.
\<close>

theorem unknown_key_fails:
  assumes "key \<in> set (R_keys values)" and "\<not> R_has key fields_dict"
  shows "input_type_parameters_for_update_or_create fields_dict values = Inl UnknownFieldError"
proof -
  from assms(1) obtain v where kv: "(key, v) \<in> set values" by (auto simp: R_keys_def)
  let ?f = "(\<lambda>key_value. map_sum id (\<lambda>unique. R_not_func (R_length unique))
                (R_item_path_unique (fst key_value) fields_dict))"
  have here: "?f (key, v) = Inl UnknownFieldError"
    using assms(2) by (simp add: R_item_path_unique_def R_has_def)
  have only: "e' = UnknownFieldError" if "?f kv' = Inl e'" for kv' :: "string \<times> 'a" and e'
    using that by (cases "R_item_path_unique (fst kv') fields_dict")
      (simp_all add: R_item_path_unique_def split: option.splits)
  have "R_filter_dict_raising ?f values = Inl UnknownFieldError"
  proof (rule R_filter_dict_raising_fails[where f = ?f and kv = "(key, v)" and e = UnknownFieldError])
    show "(key, v) \<in> set values" by (rule kv)
    show "?f (key, v) = Inl UnknownFieldError" by (rule here)
    fix kv' :: "string \<times> 'a" and e'
    assume "?f kv' = Inl e'"
    then show "e' = UnknownFieldError" by (rule only)
  qed
  then show ?thesis by (simp add: input_type_parameters_for_update_or_create_def)
qed


theorem unknown_key_fails_witness:
  "input_type_parameters_for_update_or_create
     [(''name'', FieldDictValue None None None [] (Some [Tag UNIQUE]))]
     [(''name'', ''a''), (''ghost'', ''b'')]
   = Inl UnknownFieldError"
  using unknown_key_fails
    [of "''ghost''" "[(''name'', ''a''), (''ghost'', ''b'')]"
        "[(''name'', FieldDictValue None None None [] (Some [Tag UNIQUE]))]"]
  by (simp add: R_keys_def R_has_def)

subsection \<open>Merging a field dict with the Django model\<close>

lemma R_pick_keys: "set (R_keys (R_pick keys dct)) = set (R_keys dct) \<inter> set keys"
  by (auto simp: R_pick_def R_keys_def)

lemma R_merge_deep_keys:
  "R_keys (R_merge_deep dct1 dct2) =
   R_keys dct1 @ filter (\<lambda>key. \<not> R_has key dct1) (R_keys dct2)"
  by (simp add: R_merge_deep_def R_keys_def case_prod_beta comp_def filter_map
      split: option.split)

lemma R_pick_lookup:
  "map_of (R_pick keys dct) key = (if key \<in> set keys then map_of dct key else None)"
  by (induction dct) (auto simp: R_pick_def)

lemma R_merge_deep_lookup:
  assumes "map_of dct1 key = Some value"
  shows "map_of (R_merge_deep dct1 dct2) key =
         Some (case map_of dct2 key of None \<Rightarrow> value | Some processed \<Rightarrow> merge_deep_value value processed)"
proof -
  let ?m = "\<lambda>(key, value). case map_of dct2 key of None \<Rightarrow> (key, value)
              | Some processed \<Rightarrow> (key, merge_deep_value value processed)"
  have "map_of (map ?m dct1) key =
        Some (case map_of dct2 key of None \<Rightarrow> value | Some processed \<Rightarrow> merge_deep_value value processed)"
    using assms by (induction dct1) (auto split: option.splits)
  then show ?thesis by (simp add: R_merge_deep_def map_add_def)
qed

lemma R_map_raising_Inl:
  "R_map_raising f xs = Inl e \<Longrightarrow> \<exists>x \<in> set xs. f x = Inl e"
  by (induction xs) (auto split: sum.splits)

lemma django_to_graphene_type_error:
  "django_to_graphene_type field field_dict_value = Inl e \<Longrightarrow> e = KeyError"
  by (auto simp: django_to_graphene_type_def split: if_splits option.splits)

lemma process_field_error:
  "process_field groups field field_dict_value = Inl e \<Longrightarrow> e = KeyError"
  by (auto simp: process_field_def Let_def split: sum.splits dest: django_to_graphene_type_error)

lemma parse_django_class_error:
  assumes "parse_django_class model field_dict = Inl e"
  shows "e = KeyError"
proof -
  from assms obtain field groups where
    "(case R_prop (map_of field_dict (field_name field)) of
        Inl e \<Rightarrow> Inl e
      | Inr field_dict_value \<Rightarrow>
          (case process_field groups field field_dict_value of
             Inl e \<Rightarrow> Inl e
           | Inr processed \<Rightarrow> Inr (field_name field, processed))) = Inl e"
    unfolding parse_django_class_def Let_def
    by (auto split: sum.splits dest!: R_map_raising_Inl)
  then show ?thesis
    by (auto simp: R_prop_def split: sum.splits option.splits dest: process_field_error)
qed

text \<open>
  The reflection returns metadata when every field of the model that the policy names
  has a \<^verbatim>\<open>graphene_type\<close> in the policy or a field class of the table.
\<close>

lemma R_map_raising_total:
  assumes "\<And>x. x \<in> set xs \<Longrightarrow> \<exists>y. f x = Inr y"
  shows "\<exists>ys. R_map_raising f xs = Inr ys"
  using assms
proof (induction xs)
  case Nil
  show ?case by simp
next
  case (Cons x xs)
  have "\<exists>y. f x = Inr y" by (rule Cons.prems) simp
  then obtain y where y: "f x = Inr y" ..
  have "\<exists>ys. R_map_raising f xs = Inr ys"
  proof (rule Cons.IH)
    fix x' assume "x' \<in> set xs"
    then have "x' \<in> set (x # xs)" by simp
    then show "\<exists>y. f x' = Inr y" by (rule Cons.prems)
  qed
  then obtain ys where "R_map_raising f xs = Inr ys" ..
  with y show ?case by simp
qed

lemma parse_django_class_total:
  assumes supported: "\<And>field v. field \<in> set (meta_fields model) \<Longrightarrow>
      map_of field_dict (field_name field) = Some v \<Longrightarrow>
      fdv_graphene_type v \<noteq> None \<or> graphene_type_table (field_class field) \<noteq> None"
  shows "\<exists>parsed. parse_django_class model field_dict = Inr parsed"
proof -
  let ?groups = "R_from_pairs_to_array_values
            (R_flatten
               (map (\<lambda>uniq_field_group.
                       map (\<lambda>attrname. (attrname, R_join '','' uniq_field_group)) uniq_field_group)
                  (meta_unique_together model)))"
  let ?f = "\<lambda>field.
                   case R_prop (map_of field_dict (field_name field)) of
                     Inl e \<Rightarrow> Inl e
                   | Inr field_dict_value \<Rightarrow>
                       (case process_field ?groups field field_dict_value of
                          Inl e \<Rightarrow> Inl e
                        | Inr processed \<Rightarrow> Inr (field_name field, processed))"
  have "\<exists>pairs. R_map_raising ?f
      (filter (\<lambda>field. R_has (field_name field) field_dict) (meta_fields model)) = Inr pairs"
  proof (rule R_map_raising_total)
    fix field
    assume "field \<in> set (filter (\<lambda>field. R_has (field_name field) field_dict) (meta_fields model))"
    then have field: "field \<in> set (meta_fields model)"
      and "R_has (field_name field) field_dict" by simp_all
    then obtain v where v: "map_of field_dict (field_name field) = Some v"
      by (auto simp: R_has_def)
    have "\<exists>type. django_to_graphene_type field v = Inr type"
    proof (cases "fdv_graphene_type v")
      case None
      with supported[OF field v] obtain scalar
        where "graphene_type_table (field_class field) = Some scalar" by auto
      with None show ?thesis by (simp add: django_to_graphene_type_def R_prop_or_def)
    next
      case (Some graphene_type)
      then show ?thesis by (simp add: django_to_graphene_type_def R_prop_or_def)
    qed
    then obtain type where "django_to_graphene_type field v = Inr type" ..
    with v show "\<exists>y. ?f field = Inr y"
      by (simp add: R_prop_def process_field_def)
  qed
  then obtain pairs where "R_map_raising ?f
      (filter (\<lambda>field. R_has (field_name field) field_dict) (meta_fields model)) = Inr pairs" ..
  then show ?thesis by (simp add: parse_django_class_def)
qed

text \<open>
  Claim C8. For every field dict (the policy) and the metadata that \<open>parse_django_class\<close>
  reflects for it, \<open>merge_with_django_properties\<close> returns a dict with exactly the keys
  of the policy, in the policy's order: no field of the policy is dropped or duplicated.
  Each field of the policy gets its own value, with the reflected \<^verbatim>\<open>type\<close> and
  \<^verbatim>\<open>unique\<close> laid over it where the model has the field, and a model field that the
  policy does not name is not a key of the result.
\<close>

theorem merge_keeps_policy_keys:
  assumes model: "meta_model graphene_type = Some model"
    and parsed: "parse_django_class model field_dict = Inr parsed"
  shows "\<exists>merged. merge_with_django_properties graphene_type field_dict = Inr merged
     \<and> R_keys merged = R_keys field_dict
     \<and> (\<forall>key value. map_of field_dict key = Some value \<longrightarrow>
           map_of merged key =
             Some (case map_of parsed key of None \<Rightarrow> value
                   | Some processed \<Rightarrow> merge_deep_value value processed))
     \<and> (\<forall>field \<in> set (meta_fields model).
           \<not> R_has (field_name field) field_dict \<longrightarrow> \<not> R_has (field_name field) merged)"
proof -
  let ?picked = "R_pick (R_keys field_dict) parsed"
  let ?merged = "R_merge_deep field_dict ?picked"
  have run: "merge_with_django_properties graphene_type field_dict = Inr ?merged"
    by (simp add: merge_with_django_properties_def model parsed)
  have "filter (\<lambda>key. \<not> R_has key field_dict) (R_keys ?picked) = []"
    unfolding filter_empty_conv by (simp add: R_pick_keys R_has_iff_key)
  then have keys: "R_keys ?merged = R_keys field_dict"
    by (simp add: R_merge_deep_keys)
  have lookup: "map_of ?merged key =
      Some (case map_of parsed key of None \<Rightarrow> val
            | Some processed \<Rightarrow> merge_deep_value val processed)"
    if "map_of field_dict key = Some val" for key val
  proof -
    from that have "key \<in> set (R_keys field_dict)"
      using R_has_iff_key[of key field_dict] by (simp add: R_has_def)
    then have "map_of ?picked key = map_of parsed key"
      by (simp add: R_pick_lookup)
    with R_merge_deep_lookup[OF that, of ?picked] show ?thesis by simp
  qed
  have others: "\<not> R_has name ?merged" if "\<not> R_has name field_dict" for name
    using that by (simp add: R_has_iff_key keys)
  show ?thesis
    apply (rule exI[of _ "?merged"])
    apply (intro conjI allI impI ballI)
       apply (rule run)
      apply (rule keys)
     apply (erule lookup)
    apply (erule others)
    done
qed

theorem merge_keeps_policy_keys_witness:
  "merge_with_django_properties WidgetType
     [(''name'', FieldDictValue None None None [(CREATE, PermStr REQUIRE)] None),
      (''id'', FieldDictValue None None None [(CREATE, PermStr DENY)] None)]
   = Inr [(''name'', FieldDictValue (Some (ScalarClass GrapheneString)) None None
                      [(CREATE, PermStr REQUIRE)] (Some [Groups [''name,secret'']])),
          (''id'', FieldDictValue (Some (ScalarClass GrapheneInt)) None None
                    [(CREATE, PermStr DENY)] (Some [Tag PRIMARY, Tag UNIQUE]))]"
proof -
  let ?policy = "[(''name'', FieldDictValue None None None [(CREATE, PermStr REQUIRE)] None),
      (''id'', FieldDictValue None None None [(CREATE, PermStr DENY)] None)]"
  have model: "meta_model WidgetType = Some widget_model"
    by (simp add: WidgetType_def)
  have parsed: "parse_django_class widget_model ?policy =
      Inr [(''id'', \<lparr>pf_type = ScalarClass GrapheneInt, pf_unique = [Tag PRIMARY, Tag UNIQUE]\<rparr>),
           (''name'', \<lparr>pf_type = ScalarClass GrapheneString, pf_unique = [Groups [''name,secret'']]\<rparr>)]"
    by (simp add: parse_django_class_def widget_model_def R_from_pairs_to_array_values_def
        R_flatten_def R_has_def R_prop_def R_prop_or_def process_field_def R_compact_def
        django_to_graphene_type_def R_from_pairs_def)
  from merge_keeps_policy_keys[OF model parsed]
  obtain merged where run: "merge_with_django_properties WidgetType ?policy = Inr merged"
    and keys: "R_keys merged = R_keys ?policy"
    and lookup: "\<And>key val. map_of ?policy key = Some val \<Longrightarrow>
           map_of merged key =
             Some (case map_of [(''id'', \<lparr>pf_type = ScalarClass GrapheneInt, pf_unique = [Tag PRIMARY, Tag UNIQUE]\<rparr>),
           (''name'', \<lparr>pf_type = ScalarClass GrapheneString, pf_unique = [Groups [''name,secret'']]\<rparr>)] key of None \<Rightarrow> val
                   | Some processed \<Rightarrow> merge_deep_value val processed)"
    by blast
  from keys obtain v1 v2 where merged: "merged = [(''name'', v1), (''id'', v2)]"
    by (auto simp: R_keys_def)
  from lookup[of "''name''"] lookup[of "''id''"] show ?thesis
    unfolding run merged by (simp add: merge_deep_value_def)
qed


text \<open>
  Claim C7, as amended. A field that the policy names and the model does not have makes
  nothing fail: \<open>merge_with_django_properties\<close> never fails with \<open>UnknownFieldError\<close>;
  \<open>parse_django_class\<close> leaves the field out of the reflected metadata; and the merge
  passes the field's policy value through unchanged, whether or not it has a \<^verbatim>\<open>type\<close>
  of its own.
\<close>

theorem absent_field_passes_through:
  assumes model: "meta_model graphene_type = Some model"
    and named: "map_of field_dict key = Some value"
    and absent: "key \<notin> field_name ` set (meta_fields model)"
  shows "merge_with_django_properties graphene_type field_dict \<noteq> Inl UnknownFieldError
     \<and> (\<forall>parsed. parse_django_class model field_dict = Inr parsed \<longrightarrow>
           \<not> R_has key parsed
           \<and> (\<exists>merged. merge_with_django_properties graphene_type field_dict = Inr merged
                \<and> map_of merged key = Some value))"
proof (intro conjI allI impI)
  show "merge_with_django_properties graphene_type field_dict \<noteq> Inl UnknownFieldError"
  proof
    assume "merge_with_django_properties graphene_type field_dict = Inl UnknownFieldError"
    then have "parse_django_class model field_dict = Inl UnknownFieldError"
      by (simp add: merge_with_django_properties_def model split: sum.splits)
    from parse_django_class_error[OF this] show False by simp
  qed
next
  fix parsed assume parsed: "parse_django_class model field_dict = Inr parsed"
  from parse_django_class_keys[OF parsed] absent
  show not_parsed: "\<not> R_has key parsed"
    by (auto simp: R_has_iff_key)
  let ?picked = "R_pick (R_keys field_dict) parsed"
  from not_parsed have "map_of ?picked key = None"
    by (simp add: R_pick_lookup R_has_def)
  with R_merge_deep_lookup[OF named, of ?picked]
  have "map_of (R_merge_deep field_dict ?picked) key = Some value" by simp
  then show "\<exists>merged. merge_with_django_properties graphene_type field_dict = Inr merged
                \<and> map_of merged key = Some value"
    by (simp add: merge_with_django_properties_def model parsed)
qed

theorem absent_field_passes_through_witness:
  "merge_with_django_properties WidgetType
     [(''id'', FieldDictValue None None None [(CREATE, PermStr DENY)] None),
      (''ghost'', FieldDictValue None None None [(CREATE, PermStr ALLOW)] None)]
   = Inr [(''id'', FieldDictValue (Some (ScalarClass GrapheneInt)) None None
                    [(CREATE, PermStr DENY)] (Some [Tag PRIMARY, Tag UNIQUE])),
          (''ghost'', FieldDictValue None None None [(CREATE, PermStr ALLOW)] None)]
   \<and> map_of (projr (merge_with_django_properties WidgetType
     [(''id'', FieldDictValue None None None [(CREATE, PermStr DENY)] None),
      (''ghost'', FieldDictValue None None None [(CREATE, PermStr ALLOW)] None)])) ''ghost''
     = Some (FieldDictValue None None None [(CREATE, PermStr ALLOW)] None)"
proof -
  let ?policy = "[(''id'', FieldDictValue None None None [(CREATE, PermStr DENY)] None),
      (''ghost'', FieldDictValue None None None [(CREATE, PermStr ALLOW)] None)]"
  have model: "meta_model WidgetType = Some widget_model"
    by (simp add: WidgetType_def)
  have named: "map_of ?policy ''ghost'' = Some (FieldDictValue None None None [(CREATE, PermStr ALLOW)] None)"
    by simp
  have absent: "''ghost'' \<notin> field_name ` set (meta_fields widget_model)"
    by (simp add: widget_model_def)
  have parsed: "parse_django_class widget_model ?policy =
      Inr [(''id'', \<lparr>pf_type = ScalarClass GrapheneInt, pf_unique = [Tag PRIMARY, Tag UNIQUE]\<rparr>)]"
    by (simp add: parse_django_class_def widget_model_def R_from_pairs_to_array_values_def
        R_flatten_def R_has_def R_prop_def R_prop_or_def process_field_def R_compact_def
        django_to_graphene_type_def R_from_pairs_def)
  have run: "merge_with_django_properties WidgetType ?policy
   = Inr [(''id'', FieldDictValue (Some (ScalarClass GrapheneInt)) None None
                    [(CREATE, PermStr DENY)] (Some [Tag PRIMARY, Tag UNIQUE])),
          (''ghost'', FieldDictValue None None None [(CREATE, PermStr ALLOW)] None)]"
    by (simp add: merge_with_django_properties_def model parsed R_merge_deep_def R_pick_def
        R_keys_def merge_deep_value_def R_has_def)
  from absent_field_passes_through[OF model named absent] parsed
  have "\<exists>merged. merge_with_django_properties WidgetType ?policy = Inr merged
                \<and> map_of merged ''ghost'' = Some (FieldDictValue None None None [(CREATE, PermStr ALLOW)] None)"
    by blast
  then have "map_of (projr (merge_with_django_properties WidgetType ?policy)) ''ghost''
     = Some (FieldDictValue None None None [(CREATE, PermStr ALLOW)] None)"
    by auto
  with run show ?thesis by simp
qed

text \<open>
  Claim C7 as stated fails: the policy names the field \<open>ghost\<close>, which the model does not
  have, and gives it no \<^verbatim>\<open>type\<close>; the reflection returns no metadata for it and the
  merge returns the policy unchanged instead of failing.
\<close>

theorem absent_field_counterexample:
  "fdv_type (FieldDictValue None None None [(CREATE, PermStr ALLOW)] None) = None
   \<and> ''ghost'' \<notin> set (map field_name (meta_fields widget_model))
   \<and> parse_django_class widget_model
        [(''ghost'', FieldDictValue None None None [(CREATE, PermStr ALLOW)] None)] = Inr []
   \<and> merge_with_django_properties WidgetType
        [(''ghost'', FieldDictValue None None None [(CREATE, PermStr ALLOW)] None)]
       = Inr [(''ghost'', FieldDictValue None None None [(CREATE, PermStr ALLOW)] None)]"
  by (simp add: merge_with_django_properties_def WidgetType_def parse_django_class_def widget_model_def R_from_pairs_to_array_values_def
        R_flatten_def R_has_def R_prop_def R_prop_or_def process_field_def R_compact_def
        django_to_graphene_type_def R_from_pairs_def R_merge_deep_def R_pick_def
        R_keys_def merge_deep_value_def)

subsection \<open>The registry of generated types\<close>



























subsection \<open>The fields of a generated type\<close>

lemma R_map_dict_stateful_items:
  assumes "R_map_dict_stateful f dct st = Inr (mapped, st')"
  shows "list_all2 (\<lambda>key_value key_mapped.
           fst key_mapped = fst key_value
           \<and> (\<exists>s s'. f (snd key_value) s = Inr (snd key_mapped, s'))) dct mapped"
  using assms
proof (induction dct arbitrary: st mapped)
  case Nil
  then show ?case by simp
next
  case (Cons kv dct)
  obtain key v where kv: "kv = (key, v)" by (cases kv)
  from Cons.prems obtain w s rest where head: "f v st = Inr (w, s)"
    and tail: "R_map_dict_stateful f dct s = Inr (rest, st')"
    and mapped: "mapped = (key, w) # rest"
    by (auto simp: kv split: sum.splits prod.splits)
  from Cons.IH[OF tail] head show ?case
    unfolding mapped kv by auto
qed

lemma R_map_dict_stateful_keys:
  assumes "R_map_dict_stateful f dct st = Inr (mapped, st')"
  shows "R_keys mapped = R_keys dct"
proof -
  from R_map_dict_stateful_items[OF assms]
  have "list_all2 (\<lambda>key_value key_mapped. fst key_mapped = fst key_value) dct mapped"
    by (rule list_all2_mono) simp
  then show ?thesis unfolding R_keys_def
    by (induction rule: list_all2_induct) simp_all
qed

lemma R_map_dict_stateful_lookup:
  assumes run: "R_map_dict_stateful f dct st = Inr (mapped, st')"
    and dist: "distinct (R_keys dct)"
    and entry: "(key, v) \<in> set dct"
  shows "\<exists>w s s'. map_of mapped key = Some w \<and> f v s = Inr (w, s')"
proof -
  from R_map_dict_stateful_items[OF run] dist entry show ?thesis
  proof (induction arbitrary: rule: list_all2_induct)
    case Nil
    then show ?case by simp
  next
    case (Cons kv dct km mapped)
    show ?case
    proof (cases "kv = (key, v)")
      case True
      with Cons.hyps(1) show ?thesis by (cases km) auto
    next
      case False
      with Cons.prems have rest: "(key, v) \<in> set dct" and "distinct (R_keys dct)"
        and "fst kv \<noteq> key"
        by (auto simp: R_keys_def rev_image_eqI)
      with Cons.IH Cons.hyps(1) show ?thesis by (cases km) auto
    qed
  qed
qed

lemma filtered_key:
  assumes "distinct (R_keys dct)" and "(key, v) \<in> set dct"
  shows "key \<in> set (R_keys (R_filter_dict p dct)) \<longleftrightarrow> p (key, v)"
proof
  assume "key \<in> set (R_keys (R_filter_dict p dct))"
  then obtain v' where "(key, v') \<in> set dct" "p (key, v')"
    by (auto simp: R_keys_def R_filter_dict_def)
  moreover from this(1) assms have "v' = v"
    unfolding R_keys_def by (meson eq_key_imp_eq_value)
  ultimately show "p (key, v)" by simp
next
  assume "p (key, v)"
  with assms(2) have "(key, v) \<in> set (R_filter_dict p dct)" by (simp add: R_filter_dict_def)
  then show "key \<in> set (R_keys (R_filter_dict p dct))" unfolding R_keys_def by force
qed






lemma widget_fields_create:
  "input_type_fields widget_fields (Some CREATE) empty_registry =
     Inr ([(''name'', ScalarInstance GrapheneString True),
           (''secret'', ScalarInstance GrapheneString False)], empty_registry)"
  by (simp add: widget_fields_def R_filter_dict_def R_prop_eq_or_def R_prop_eq_or_in_or_def R_prop_def)





lemma instantiate_graphene_type_required:
  assumes "instantiate_graphene_type v crud st = Inr (inst, st')"
  shows "is_required inst \<longleftrightarrow> requires v crud"
proof -
  have "R_prop_eq_or_in_or False (map_of (fdv_crud v) crud) REQUIRE \<longleftrightarrow> requires v crud"
    by (auto simp: R_prop_eq_or_in_or_def requires_def split: option.splits perm_value.splits)
  with assms show ?thesis
    by (auto simp: Let_def split: sum.splits graphene_type_value.splits)
qed

text \<open>
  Claim C3. The instance that \<open>instantiate_graphene_type\<close> returns for a field and a CRUD
  operation is marked required exactly when the field's permission for that operation is
  \<open>REQUIRE\<close> or a list that contains \<open>REQUIRE\<close>; so is the field's instance in the dict
  that \<open>input_type_fields\<close> returns; and a field with no entry for the operation is in that
  dict with an instance that is not required.
\<close>

theorem required_iff_require:
  assumes dist: "distinct (R_keys fields_dict)" and field: "(key, v) \<in> set fields_dict"
    and run: "input_type_fields fields_dict (Some crud) st = Inr (input_fields, st')"
  shows "(\<forall>s inst s'. instantiate_graphene_type v crud s = Inr (inst, s') \<longrightarrow>
            (is_required inst \<longleftrightarrow> requires v crud))
       \<and> (\<forall>inst. map_of input_fields key = Some inst \<longrightarrow> (is_required inst \<longleftrightarrow> requires v crud))
       \<and> (map_of (fdv_crud v) crud = None \<longrightarrow>
            (\<exists>inst. map_of input_fields key = Some inst \<and> \<not> is_required inst))"
proof -
  let ?kept = "R_filter_dict
      (\<lambda>key_value. \<not> R_prop_eq_or False (map_of (fdv_crud (snd key_value)) crud) DENY) fields_dict"
  from run have mapped: "R_map_dict_stateful (\<lambda>v. instantiate_graphene_type v crud) ?kept st
      = Inr (input_fields, st')"
    by simp
  have dist_kept: "distinct (R_keys ?kept)"
    using dist by (simp add: R_keys_def R_filter_dict_def distinct_map_filter)
  have found: "\<exists>inst s s'. map_of input_fields key = Some inst
      \<and> instantiate_graphene_type v crud s = Inr (inst, s')" if "(key, v) \<in> set ?kept"
    using R_map_dict_stateful_lookup[OF mapped dist_kept that] by blast
  have kept_iff: "(key, v) \<in> set ?kept \<longleftrightarrow> map_of (fdv_crud v) crud \<noteq> Some (PermStr DENY)"
    using field by (auto simp: R_filter_dict_def R_prop_eq_or_def split: option.splits)
  have in_kept: "(key, v) \<in> set ?kept" if "map_of input_fields key = Some inst" for inst
  proof -
    from that have "key \<in> set (R_keys input_fields)"
      using R_has_iff_key[of key input_fields] by (simp add: R_has_def)
    with R_map_dict_stateful_keys[OF mapped] have "key \<in> set (R_keys ?kept)" by simp
    with filtered_key[OF dist field] field show ?thesis
      by (simp add: R_filter_dict_def)
  qed
  show ?thesis
  proof (intro conjI allI impI)
    fix s inst s' assume "instantiate_graphene_type v crud s = Inr (inst, s')"
    then show "is_required inst \<longleftrightarrow> requires v crud"
      by (rule instantiate_graphene_type_required)
  next
    fix inst assume here: "map_of input_fields key = Some inst"
    from found[OF in_kept[OF here]] here obtain s s'
      where "instantiate_graphene_type v crud s = Inr (inst, s')" by auto
    then show "is_required inst \<longleftrightarrow> requires v crud"
      by (rule instantiate_graphene_type_required)
  next
    assume none: "map_of (fdv_crud v) crud = None"
    with kept_iff have "(key, v) \<in> set ?kept" by simp
    from found[OF this] obtain inst s s' where here: "map_of input_fields key = Some inst"
      and inst: "instantiate_graphene_type v crud s = Inr (inst, s')" by blast
    from instantiate_graphene_type_required[OF inst] none have "\<not> is_required inst"
      by (simp add: requires_def)
    with here show "\<exists>inst. map_of input_fields key = Some inst \<and> \<not> is_required inst" by blast
  qed
qed


theorem required_iff_require_witness:
  "input_type_fields widget_fields (Some CREATE) empty_registry =
     Inr ([(''name'', ScalarInstance GrapheneString True),
           (''secret'', ScalarInstance GrapheneString False)], empty_registry)
   \<and> requires (FieldDictValue (Some (ScalarClass GrapheneString)) None None
                  [(CREATE, PermList [REQUIRE, UNIQUE]), (UPDATE, PermStr ALLOW)]
                  (Some [Groups [''name,secret'']])) CREATE
   \<and> \<not> requires (FieldDictValue (Some (ScalarClass GrapheneString)) None None
                    [(READ, PermStr DENY)] (Some [Groups [''name,secret'']])) CREATE"
proof -
  have dist: "distinct (R_keys widget_fields)"
    by (simp add: widget_fields_def R_keys_def)
  have name_field: "(''name'', FieldDictValue (Some (ScalarClass GrapheneString)) None None
                  [(CREATE, PermList [REQUIRE, UNIQUE]), (UPDATE, PermStr ALLOW)]
                  (Some [Groups [''name,secret'']])) \<in> set widget_fields"
    by (simp add: widget_fields_def)
  have secret_field: "(''secret'', FieldDictValue (Some (ScalarClass GrapheneString)) None None
                    [(READ, PermStr DENY)] (Some [Groups [''name,secret'']])) \<in> set widget_fields"
    by (simp add: widget_fields_def)
  from required_iff_require[OF dist name_field widget_fields_create]
  have "requires (FieldDictValue (Some (ScalarClass GrapheneString)) None None
                  [(CREATE, PermList [REQUIRE, UNIQUE]), (UPDATE, PermStr ALLOW)]
                  (Some [Groups [''name,secret'']])) CREATE"
    by simp
  moreover from required_iff_require[OF dist secret_field widget_fields_create]
  have "\<not> requires (FieldDictValue (Some (ScalarClass GrapheneString)) None None
                    [(READ, PermStr DENY)] (Some [Groups [''name,secret'']])) CREATE"
    by simp
  ultimately show ?thesis using widget_fields_create by simp
qed

subsection \<open>The query document\<close>

lemma graphql_query_no_variables:
  "graphql_query dump_keys query_name fields_dict client [] [] kwargs =
     (case dump_keys fields_dict of
        Inl e \<Rightarrow> Inl e
      | Inr keys \<Rightarrow>
          Inr (client
                 (''query someMadeUpString { '' @ newline
                    @ spaces 16 @ query_name @ '' {'' @ newline
                    @ spaces 20 @ keys @ newline
                    @ spaces 16 @ ''}'' @ newline
                    @ spaces 12 @ ''}'')
                 kwargs))"
  by (simp add: graphql_query_def R_values_def R_map_with_obj_def split: sum.splits)

text \<open>
  Claim C9. With an empty \<^verbatim>\<open>variable_definitions\<close> and no \<^verbatim>\<open>field_overrides\<close>, the read
  query named \<open>widget\<close> hands the client the document
  \<^verbatim>\<open>query someMadeUpString { widget { ... } }\<close>, whose selection is what the key dumper
  renders for the field dict: the root field is \<open>widget\<close>, nothing stands between the
  operation name and its brace, and nothing between \<open>widget\<close> and its brace. For a field
  dict with exactly the scalar fields \<open>id\<close> and \<open>name\<close> the selection is the two lines \<open>id\<close>
  and \<open>name\<close>, and the whole document has no parenthesis and no dollar sign, so it has no
  argument list and declares no variable.
\<close>

theorem widget_query_document:
  "graphql_query dump_keys ''widget'' fields_dict client [] [] kwargs =
     (case dump_keys fields_dict of
        Inl e \<Rightarrow> Inl e
      | Inr keys \<Rightarrow>
          Inr (client
                 (''query someMadeUpString { '' @ newline
                    @ spaces 16 @ ''widget {'' @ newline
                    @ spaces 20 @ keys @ newline
                    @ spaces 16 @ ''}'' @ newline
                    @ spaces 12 @ ''}'')
                 kwargs))
   \<and> dump_graphql_keys
         [(''id'', FieldDictValue id_type id_graphene_type None id_crud id_unique),
          (''name'', FieldDictValue name_type name_graphene_type None name_crud name_unique)]
       = Inr (''id'' @ newline @ ''name'')
   \<and> graphql_query dump_graphql_keys ''widget''
         [(''id'', FieldDictValue id_type id_graphene_type None id_crud id_unique),
          (''name'', FieldDictValue name_type name_graphene_type None name_crud name_unique)]
         document_of [] [] ()
       = Inr (''query someMadeUpString { '' @ newline
                @ spaces 16 @ ''widget {'' @ newline
                @ spaces 20 @ ''id'' @ newline @ ''name'' @ newline
                @ spaces 16 @ ''}'' @ newline
                @ spaces 12 @ ''}'')
   \<and> CHR ''('' \<notin> set (''query someMadeUpString { '' @ newline
                @ spaces 16 @ ''widget {'' @ newline
                @ spaces 20 @ ''id'' @ newline @ ''name'' @ newline
                @ spaces 16 @ ''}'' @ newline
                @ spaces 12 @ ''}'')
   \<and> CHR ''$'' \<notin> set (''query someMadeUpString { '' @ newline
                @ spaces 16 @ ''widget {'' @ newline
                @ spaces 20 @ ''id'' @ newline @ ''name'' @ newline
                @ spaces 16 @ ''}'' @ newline
                @ spaces 12 @ ''}'')"
proof -
  have lower_id: "camelize_lower ''id'' = Inr ''id''" by code_simp
  have lower_name: "camelize_lower ''name'' = Inr ''name''" by code_simp
  have dump: "dump_graphql_keys
         [(''id'', FieldDictValue id_type id_graphene_type None id_crud id_unique),
          (''name'', FieldDictValue name_type name_graphene_type None name_crud name_unique)]
       = Inr (''id'' @ newline @ ''name'')"
    by (simp add: dump_graphql_keys.simps lower_id lower_name)
  have general: "graphql_query dump_keys ''widget'' fields_dict client [] [] kwargs =
     (case dump_keys fields_dict of
        Inl e \<Rightarrow> Inl e
      | Inr keys \<Rightarrow>
          Inr (client
                 (''query someMadeUpString { '' @ newline
                    @ spaces 16 @ ''widget {'' @ newline
                    @ spaces 20 @ keys @ newline
                    @ spaces 16 @ ''}'' @ newline
                    @ spaces 12 @ ''}'')
                 kwargs))"
    by (simp add: graphql_query_no_variables split: sum.split)
  have concrete: "graphql_query dump_graphql_keys ''widget''
         [(''id'', FieldDictValue id_type id_graphene_type None id_crud id_unique),
          (''name'', FieldDictValue name_type name_graphene_type None name_crud name_unique)]
         document_of [] [] ()
       = Inr (''query someMadeUpString { '' @ newline
                @ spaces 16 @ ''widget {'' @ newline
                @ spaces 20 @ ''id'' @ newline @ ''name'' @ newline
                @ spaces 16 @ ''}'' @ newline
                @ spaces 12 @ ''}'')"
    by (simp add: graphql_query_no_variables dump document_of_def)
  have no_paren: "CHR ''('' \<notin> set (''query someMadeUpString { '' @ newline
                @ spaces 16 @ ''widget {'' @ newline
                @ spaces 20 @ ''id'' @ newline @ ''name'' @ newline
                @ spaces 16 @ ''}'' @ newline
                @ spaces 12 @ ''}'')"
    by (simp add: newline_def spaces_def)
  have no_dollar: "CHR ''$'' \<notin> set (''query someMadeUpString { '' @ newline
                @ spaces 16 @ ''widget {'' @ newline
                @ spaces 20 @ ''id'' @ newline @ ''name'' @ newline
                @ spaces 16 @ ''}'' @ newline
                @ spaces 12 @ ''}'')"
    by (simp add: newline_def spaces_def)
  from general dump concrete no_paren no_dollar show ?thesis by (intro conjI)
qed

end
